theory Spec2Isabelle
  imports Main "HOL-Library.Word"
begin

section \<open>Strings of the platform\<close>

text \<open>
  The program is TypeScript: a string is a sequence of 16-bit code units. A literal of
  the source is written \<open>js ''...''\<close>; the literals of \<^verbatim>\<open>qrCode.ts\<close> are all ASCII.
\<close>

type_synonym code_unit = "16 word"
type_synonym jsstring = "code_unit list"

definition js :: "string \<Rightarrow> jsstring" where
  "js s = map of_char s"

definition LF :: code_unit where
  "LF = 0x0A"

text \<open>A string is truthy when it is not the empty string (\<^verbatim>\<open>!s\<close>, \<^verbatim>\<open>s && ...\<close>, \<^verbatim>\<open>s || ''\<close>).\<close>

definition truthy :: "jsstring \<Rightarrow> bool" where
  "truthy s \<longleftrightarrow> s \<noteq> []"

definition or_else :: "jsstring \<Rightarrow> jsstring \<Rightarrow> jsstring" where
  "or_else a b = (if truthy a then a else b)"

text \<open>
  \<^verbatim>\<open>String.prototype.trim\<close> removes the code units of WhiteSpace and LineTerminator from
  both ends; the regular expression class \<^verbatim>\<open>\s\<close> is the same set.
\<close>

definition isWhiteSpace :: "code_unit \<Rightarrow> bool" where
  "isWhiteSpace c \<longleftrightarrow>
     c = 0x0009 \<or> c = 0x000A \<or> c = 0x000B \<or> c = 0x000C \<or> c = 0x000D \<or> c = 0x0020 \<or>
     c = 0x00A0 \<or> c = 0x1680 \<or> (0x2000 \<le> c \<and> c \<le> 0x200A) \<or>
     c = 0x2028 \<or> c = 0x2029 \<or> c = 0x202F \<or> c = 0x205F \<or> c = 0x3000 \<or> c = 0xFEFF"

definition trim :: "jsstring \<Rightarrow> jsstring" where
  "trim s = rev (dropWhile isWhiteSpace (rev (dropWhile isWhiteSpace s)))"

definition isDigit :: "code_unit \<Rightarrow> bool" where
  "isDigit c \<longleftrightarrow> 0x30 \<le> c \<and> c \<le> 0x39"

definition isUpper :: "code_unit \<Rightarrow> bool" where
  "isUpper c \<longleftrightarrow> 0x41 \<le> c \<and> c \<le> 0x5A"

definition isLower :: "code_unit \<Rightarrow> bool" where
  "isLower c \<longleftrightarrow> 0x61 \<le> c \<and> c \<le> 0x7A"

text \<open>
  \<^verbatim>\<open>field.replace(/([A-Z])/g, ' $1')\<close> puts a space before every capital A..Z, and
  \<^verbatim>\<open>toLowerCase\<close> is modelled on the ASCII strings it is applied to here (the field
  names of the source), where it changes the capitals A..Z only.
\<close>

definition replace_capitals :: "jsstring \<Rightarrow> jsstring" where
  "replace_capitals s = concat (map (\<lambda>c. if isUpper c then [0x20, c] else [c]) s)"

definition toLowerCase :: "jsstring \<Rightarrow> jsstring" where
  "toLowerCase s = map (\<lambda>c. if isUpper c then c + 0x20 else c) s"

text \<open>\<^verbatim>\<open>parts.join(sep)\<close> and \<^verbatim>\<open>s.replace(/;/g, '')\<close>.\<close>

fun join :: "jsstring \<Rightarrow> jsstring list \<Rightarrow> jsstring" where
  "join sep [] = []"
| "join sep [x] = x"
| "join sep (x # y # ys) = x @ sep @ join sep (y # ys)"

definition remove_semicolons :: "jsstring \<Rightarrow> jsstring" where
  "remove_semicolons s = filter (\<lambda>c. c \<noteq> 0x3B) s"

subsection \<open>The two regular expressions\<close>

text \<open>
  Both regular expressions of the source are anchored at both ends and are sequences of
  single classes and classes under \<^verbatim>\<open>+\<close>. \<open>matches\<close> is the backtracking matcher on
  such sequences, the longer repetition tried first; \<^verbatim>\<open>s.match(re)\<close> is truthy when it
  succeeds.
\<close>

datatype atom = Single "code_unit \<Rightarrow> bool" | OneOrMore "code_unit \<Rightarrow> bool"

fun matches :: "atom list \<Rightarrow> jsstring \<Rightarrow> bool" where
  "matches [] s = (s = [])"
| "matches (Single p # r) [] = False"
| "matches (Single p # r) (c # cs) = (p c \<and> matches r cs)"
| "matches (OneOrMore p # r) [] = False"
| "matches (OneOrMore p # r) (c # cs) = (p c \<and> (matches (OneOrMore p # r) cs \<or> matches r cs))"

text \<open>\<^verbatim>\<open>[^\s@]\<close>\<close>

definition notSpaceOrAt :: "code_unit \<Rightarrow> bool" where
  "notSpaceOrAt c \<longleftrightarrow> \<not> isWhiteSpace c \<and> c \<noteq> 0x40"

text \<open>
  \<^verbatim>\<open>[+\d\s-()]\<close>: without the \<^verbatim>\<open>u\<close> flag the hyphen after the class escape \<^verbatim>\<open>\s\<close> is a
  literal hyphen, so the class is the plus sign, the digits, the white space of \<^verbatim>\<open>\s\<close>,
  the hyphen and the two parentheses.
\<close>

definition phoneClass :: "code_unit \<Rightarrow> bool" where
  "phoneClass c \<longleftrightarrow>
     c = 0x2B \<or> isDigit c \<or> isWhiteSpace c \<or> c = 0x2D \<or> c = 0x28 \<or> c = 0x29"

text \<open>\<^verbatim>\<open>/^[^\s@]+@[^\s@]+\.[^\s@]+$/\<close> and \<^verbatim>\<open>/^[+\d\s-()]+$/\<close>\<close>

definition EMAIL_RE :: "atom list" where
  "EMAIL_RE = [OneOrMore notSpaceOrAt, Single (\<lambda>c. c = 0x40), OneOrMore notSpaceOrAt,
               Single (\<lambda>c. c = 0x2E), OneOrMore notSpaceOrAt]"

definition PHONE_RE :: "atom list" where
  "PHONE_RE = [OneOrMore phoneClass]"

subsection \<open>Thrown values\<close>

text \<open>
  What a \<^verbatim>\<open>throw\<close> or a rejected promise carries: \<^verbatim>\<open>new Error(message)\<close>; the
  \<^verbatim>\<open>URIError\<close> of \<^verbatim>\<open>encodeURIComponent\<close> (an instance of \<^verbatim>\<open>Error\<close>, its message is the
  engine's); or a value that is not an instance of \<^verbatim>\<open>Error\<close>.
\<close>

datatype thrown = Error jsstring | URIError | NonError

fun instanceof_Error :: "thrown \<Rightarrow> bool" where
  "instanceof_Error (Error m) = True"
| "instanceof_Error URIError = True"
| "instanceof_Error NonError = False"

subsection \<open>\<^verbatim>\<open>encodeURIComponent\<close>\<close>

text \<open>
  ECMAScript's Encode with the unreserved set of \<^verbatim>\<open>encodeURIComponent\<close>: a code unit of
  the set is copied; any other code point is written as the \<^verbatim>\<open>%XX\<close> escapes of its UTF-8
  octets; a surrogate without its partner throws \<^verbatim>\<open>URIError\<close> (\<open>None\<close>).
\<close>

definition uriUnescaped :: "code_unit \<Rightarrow> bool" where
  "uriUnescaped c \<longleftrightarrow>
     isUpper c \<or> isLower c \<or> isDigit c \<or>
     c = 0x2D \<or> c = 0x5F \<or> c = 0x2E \<or> c = 0x21 \<or> c = 0x7E \<or> c = 0x2A \<or>
     c = 0x27 \<or> c = 0x28 \<or> c = 0x29"

definition isLeadingSurrogate :: "code_unit \<Rightarrow> bool" where
  "isLeadingSurrogate c \<longleftrightarrow> 0xD800 \<le> c \<and> c \<le> 0xDBFF"

definition isTrailingSurrogate :: "code_unit \<Rightarrow> bool" where
  "isTrailingSurrogate c \<longleftrightarrow> 0xDC00 \<le> c \<and> c \<le> 0xDFFF"

definition surrogatePairToCodePoint :: "code_unit \<Rightarrow> code_unit \<Rightarrow> nat" where
  "surrogatePairToCodePoint lead trail =
     (unat lead - 0xD800) * 0x400 + (unat trail - 0xDC00) + 0x10000"

definition utf8 :: "nat \<Rightarrow> nat list" where
  "utf8 cp =
     (if cp < 0x80 then [cp]
      else if cp < 0x800 then [0xC0 + cp div 0x40, 0x80 + cp mod 0x40]
      else if cp < 0x10000 then
        [0xE0 + cp div 0x1000, 0x80 + (cp div 0x40) mod 0x40, 0x80 + cp mod 0x40]
      else
        [0xF0 + cp div 0x40000, 0x80 + (cp div 0x1000) mod 0x40,
         0x80 + (cp div 0x40) mod 0x40, 0x80 + cp mod 0x40])"

definition hexDigit :: "nat \<Rightarrow> code_unit" where
  "hexDigit n = (if n < 10 then 0x30 + of_nat n else 0x41 + of_nat (n - 10))"

definition percentEscape :: "nat \<Rightarrow> jsstring" where
  "percentEscape octet = [0x25, hexDigit (octet div 16), hexDigit (octet mod 16)]"

definition escapeCodePoint :: "nat \<Rightarrow> jsstring" where
  "escapeCodePoint cp = concat (map percentEscape (utf8 cp))"

fun encodeURIComponent :: "jsstring \<Rightarrow> jsstring option" where
  "encodeURIComponent [] = Some []"
| "encodeURIComponent (c # cs) =
     (if uriUnescaped c then map_option ((#) c) (encodeURIComponent cs)
      else if isTrailingSurrogate c then None
      else if isLeadingSurrogate c then
        (case cs of
           [] \<Rightarrow> None
         | d # ds \<Rightarrow>
             if isTrailingSurrogate d
             then map_option ((@) (escapeCodePoint (surrogatePairToCodePoint c d)))
                    (encodeURIComponent ds)
             else None)
      else map_option ((@) (escapeCodePoint (unat c))) (encodeURIComponent cs))"

section \<open>The data model (\<^verbatim>\<open>types/index.ts\<close>)\<close>

record VCardData =
  firstName :: jsstring
  lastName :: jsstring
  mobile :: jsstring
  phone :: jsstring
  workPhone :: jsstring
  fax :: jsstring
  email :: jsstring
  company :: jsstring
  jobTitle :: jsstring
  street :: jsstring
  city :: jsstring
  zip' :: jsstring
  state :: jsstring
  country :: jsstring
  website :: jsstring

record EmailData =
  email :: jsstring
  subject :: jsstring
  body :: jsstring

record SMSData =
  phone :: jsstring
  message :: jsstring

datatype encryption = WPA | WEP | nopass

fun encryption_string :: "encryption \<Rightarrow> jsstring" where
  "encryption_string WPA = js ''WPA''"
| "encryption_string WEP = js ''WEP''"
| "encryption_string nopass = js ''nopass''"

record WiFiData =
  ssid :: jsstring
  password :: jsstring
  encryption :: encryption
  hidden :: bool

record QRCodeParams =
  url :: jsstring
  vcardData :: VCardData
  emailData :: EmailData
  smsData :: SMSData
  text' :: jsstring
  wifiData :: WiFiData

section \<open>Validation (\<^verbatim>\<open>utils/qrCode.ts\<close>)\<close>

text \<open>
  \<open>URL\<close> is the platform's \<^verbatim>\<open>new URL(s).toString()\<close>: \<open>Some\<close> of the serialized URL, or
  \<open>None\<close> when the constructor throws.
\<close>

definition validateUrl :: "(jsstring \<Rightarrow> jsstring option) \<Rightarrow> jsstring \<Rightarrow> thrown + jsstring" where
  "validateUrl URL u =
     (let trimmedUrl = trim u in
      if \<not> truthy trimmedUrl then Inl (Error (js ''Please enter a URL''))
      else
        (case URL trimmedUrl of
           Some urlObj \<Rightarrow> Inr urlObj
         | None \<Rightarrow>
             (case URL (js ''https://'' @ trimmedUrl) of
                Some urlWithProtocol \<Rightarrow> Inr urlWithProtocol
              | None \<Rightarrow> Inl (Error (js ''Please enter a valid website URL'')))))"

text \<open>\<^verbatim>\<open>data[field as keyof VCardData]\<close>: the property of that name, if there is one.\<close>

definition get_field :: "VCardData \<Rightarrow> jsstring \<Rightarrow> jsstring option" where
  "get_field data field =
     (if field = js ''firstName'' then Some (firstName data)
      else if field = js ''lastName'' then Some (lastName data)
      else if field = js ''mobile'' then Some (mobile data)
      else if field = js ''phone'' then Some (VCardData.phone data)
      else if field = js ''workPhone'' then Some (workPhone data)
      else if field = js ''fax'' then Some (fax data)
      else if field = js ''email'' then Some (VCardData.email data)
      else if field = js ''company'' then Some (company data)
      else if field = js ''jobTitle'' then Some (jobTitle data)
      else if field = js ''street'' then Some (street data)
      else if field = js ''city'' then Some (city data)
      else if field = js ''zip'' then Some (zip' data)
      else if field = js ''state'' then Some (state data)
      else if field = js ''country'' then Some (country data)
      else if field = js ''website'' then Some (website data)
      else None)"

text \<open>The \<^verbatim>\<open>forEach\<close> over the phone fields; a throw in the callback ends it.\<close>

fun forEach_phoneFields :: "VCardData \<Rightarrow> jsstring list \<Rightarrow> thrown + unit" where
  "forEach_phoneFields data [] = Inr ()"
| "forEach_phoneFields data (field # rest) =
     (case get_field data field of
        None \<Rightarrow> forEach_phoneFields data rest
      | Some v \<Rightarrow>
          if truthy v \<and> \<not> matches PHONE_RE v
          then Inl (Error (js ''Please enter a valid '' @ toLowerCase (replace_capitals field)))
          else forEach_phoneFields data rest)"

definition phoneFields :: "jsstring list" where
  "phoneFields = [js ''mobile'', js ''phone'', js ''workPhone'', js ''fax'']"

definition validateVCardData :: "VCardData \<Rightarrow> thrown + unit" where
  "validateVCardData data =
     (if \<not> truthy (trim (firstName data)) \<or> \<not> truthy (trim (lastName data))
      then Inl (Error (js ''Please enter both first and last name''))
      else if truthy (VCardData.email data) \<and> \<not> matches EMAIL_RE (VCardData.email data)
      then Inl (Error (js ''Please enter a valid email address''))
      else forEach_phoneFields data phoneFields)"

definition validateEmailData :: "EmailData \<Rightarrow> thrown + unit" where
  "validateEmailData data =
     (if \<not> truthy (trim (EmailData.email data))
      then Inl (Error (js ''Please enter an email address''))
      else if \<not> matches EMAIL_RE (EmailData.email data)
      then Inl (Error (js ''Please enter a valid email address''))
      else Inr ())"

definition validateSMSData :: "SMSData \<Rightarrow> thrown + unit" where
  "validateSMSData data =
     (if \<not> truthy (trim (SMSData.phone data))
      then Inl (Error (js ''Please enter a phone number''))
      else if \<not> matches PHONE_RE (SMSData.phone data)
      then Inl (Error (js ''Please enter a valid phone number''))
      else Inr ())"

definition validateText :: "jsstring \<Rightarrow> thrown + unit" where
  "validateText t =
     (if \<not> truthy (trim t) then Inl (Error (js ''Please enter some text'')) else Inr ())"

definition validateWiFiData :: "WiFiData \<Rightarrow> thrown + unit" where
  "validateWiFiData data =
     (if \<not> truthy (trim (ssid data))
      then Inl (Error (js ''Please enter a network name (SSID)''))
      else if encryption data \<noteq> nopass \<and> \<not> truthy (trim (password data))
      then Inl (Error (js ''Please enter a network password''))
      else Inr ())"

section \<open>The string builders\<close>

text \<open>One \<^verbatim>\<open>if (field?.trim()) vcard += `\nTAG:${field.trim()}`\<close> of the vCard builder.\<close>

definition append_line :: "jsstring \<Rightarrow> string \<Rightarrow> jsstring \<Rightarrow> jsstring" where
  "append_line vcard tag field =
     (if truthy (trim field) then vcard @ [LF] @ js tag @ trim field else vcard)"

definition generateVCardString :: "VCardData \<Rightarrow> thrown + jsstring" where
  "generateVCardString data =
     (case validateVCardData data of
        Inl e \<Rightarrow> Inl e
      | Inr _ \<Rightarrow>
          (let vcard = js ''BEGIN:VCARD'' @ [LF] @ js ''VERSION:3.0'' @ [LF] @
                 js ''FN:'' @ trim (firstName data) @ js '' '' @ trim (lastName data) @ [LF] @
                 js ''N:'' @ trim (lastName data) @ js '';'' @ trim (firstName data) @ js '';;;'';
               vcard = append_line vcard ''EMAIL:'' (VCardData.email data);
               vcard = append_line vcard ''TEL;TYPE=CELL:'' (mobile data);
               vcard = append_line vcard ''TEL;TYPE=HOME:'' (VCardData.phone data);
               vcard = append_line vcard ''TEL;TYPE=WORK:'' (workPhone data);
               vcard = append_line vcard ''TEL;TYPE=FAX:'' (fax data);
               vcard = append_line vcard ''ORG:'' (company data);
               vcard = append_line vcard ''TITLE:'' (jobTitle data);
               address = join (js '';'')
                 [[], [],
                  or_else (trim (street data)) [],
                  or_else (trim (city data)) [],
                  or_else (trim (state data)) [],
                  or_else (trim (zip' data)) [],
                  or_else (trim (country data)) []];
               vcard = (if truthy (remove_semicolons address)
                        then vcard @ [LF] @ js ''ADR:'' @ address else vcard);
               vcard = append_line vcard ''URL:'' (website data)
           in Inr (vcard @ [LF] @ js ''END:VCARD'')))"

definition generateEmailString :: "EmailData \<Rightarrow> thrown + jsstring" where
  "generateEmailString data =
     (case validateEmailData data of
        Inl e \<Rightarrow> Inl e
      | Inr _ \<Rightarrow>
          (case encodeURIComponent (or_else (subject data) []) of
             None \<Rightarrow> Inl URIError
           | Some subject' \<Rightarrow>
               (case encodeURIComponent (or_else (body data) []) of
                  None \<Rightarrow> Inl URIError
                | Some body' \<Rightarrow>
                    Inr (js ''mailto:'' @ EmailData.email data @ js ''?subject='' @ subject' @
                         js ''&body='' @ body'))))"

definition generateSMSString :: "SMSData \<Rightarrow> thrown + jsstring" where
  "generateSMSString data =
     (case validateSMSData data of
        Inl e \<Rightarrow> Inl e
      | Inr _ \<Rightarrow>
          (case encodeURIComponent (or_else (message data) []) of
             None \<Rightarrow> Inl URIError
           | Some message' \<Rightarrow>
               Inr (js ''sms:'' @ SMSData.phone data @
                    (if truthy message' then js '':'' @ message' else []))))"

definition generateWiFiString :: "WiFiData \<Rightarrow> thrown + jsstring" where
  "generateWiFiString data =
     (case validateWiFiData data of
        Inl e \<Rightarrow> Inl e
      | Inr _ \<Rightarrow>
          Inr (js ''WIFI:T:'' @ encryption_string (encryption data) @ js '';S:'' @ ssid data @
               js '';P:'' @ password data @ (if hidden data then js '';H:true'' else []) @
               js '';;''))"

section \<open>The dispatcher\<close>

text \<open>
  The \<^verbatim>\<open>switch\<close> of \<^verbatim>\<open>generateQRCode\<close>: the text for the rasterizer, or what was thrown
  on the way. The kind tag is a string at run time, hence the \<^verbatim>\<open>default\<close> branch.
\<close>

definition qr_data ::
  "(jsstring \<Rightarrow> jsstring option) \<Rightarrow> jsstring \<Rightarrow> QRCodeParams \<Rightarrow> thrown + jsstring" where
  "qr_data URL type' params =
     (if type' = js ''url'' then validateUrl URL (url params)
      else if type' = js ''vcard'' then generateVCardString (vcardData params)
      else if type' = js ''email'' then generateEmailString (emailData params)
      else if type' = js ''sms'' then generateSMSString (smsData params)
      else if type' = js ''text'' then
        (case validateText (text' params) of Inl e \<Rightarrow> Inl e | Inr _ \<Rightarrow> Inr (text' params))
      else if type' = js ''wifi'' then generateWiFiString (wifiData params)
      else Inl (Error (js ''Invalid QR code type'')))"

text \<open>
  \<open>toDataURL\<close> is the rasterizer \<^verbatim>\<open>QRCode.toDataURL\<close> under the fixed options of the
  source, awaited: the data URI, or what it threw or rejected with. A run of
  \<^verbatim>\<open>generateQRCode\<close> gives its outcome and the texts the rasterizer was called with.
\<close>

record run =
  outcome :: "thrown + jsstring"
  rasterized :: "jsstring list"

definition catch_handler :: "thrown \<Rightarrow> thrown" where
  "catch_handler error =
     (if instanceof_Error error then error
      else Error (js ''Failed to generate QR code. Please try again.''))"

definition generateQRCode ::
  "(jsstring \<Rightarrow> jsstring option) \<Rightarrow> (jsstring \<Rightarrow> thrown + jsstring) \<Rightarrow>
   jsstring \<Rightarrow> QRCodeParams \<Rightarrow> run" where
  "generateQRCode URL toDataURL type' params =
     (case qr_data URL type' params of
        Inl error \<Rightarrow> \<lparr>outcome = Inl (catch_handler error), rasterized = []\<rparr>
      | Inr data \<Rightarrow>
          (case toDataURL data of
             Inl error \<Rightarrow> \<lparr>outcome = Inl (catch_handler error), rasterized = [data]\<rparr>
           | Inr dataUrl \<Rightarrow> \<lparr>outcome = Inr dataUrl, rasterized = [data]\<rparr>))"

section \<open>The platform's URL parser, on a fragment of its inputs\<close>

text \<open>
  \<^verbatim>\<open>new URL(s)\<close> without a base runs the basic URL parser of the URL Standard, and
  \<^verbatim>\<open>toString\<close> its serializer. \<open>validateUrl\<close> takes the parser as a parameter; what follows
  fixes what every conforming parser does on the inputs made of ASCII letters, digits and
  the four characters \<^verbatim>\<open>. - : /\<close> whose scheme is http or https and whose host has no
  punycode label and cannot be read as a number. On these inputs no character is
  percent-encoded, there are no credentials, query or fragment, and the host is the
  lower-cased domain. Every other input is \<open>Unmodelled\<close>: nothing is said about it.
\<close>

datatype url_result = Href jsstring | Failure | Unmodelled

definition isAlpha :: "code_unit \<Rightarrow> bool" where
  "isAlpha c \<longleftrightarrow> isUpper c \<or> isLower c"

definition asciiLower :: "code_unit \<Rightarrow> code_unit" where
  "asciiLower c = (if isUpper c then c + 0x20 else c)"

definition inFragment :: "code_unit \<Rightarrow> bool" where
  "inFragment c \<longleftrightarrow> isAlpha c \<or> isDigit c \<or> c = 0x2E \<or> c = 0x2D \<or> c = 0x3A \<or> c = 0x2F"

text \<open>
  Scheme start state and scheme state: a letter, then letters, digits, \<^verbatim>\<open>+ - .\<close> up to the
  colon, lower-cased. Anything else leads to the no scheme state, which without a base
  URL is a failure (\<open>None\<close>). The result is the scheme and the input after the colon.
\<close>

fun scheme_state :: "jsstring \<Rightarrow> jsstring \<Rightarrow> (jsstring \<times> jsstring) option" where
  "scheme_state buffer [] = None"
| "scheme_state buffer (c # cs) =
     (if isAlpha c \<or> isDigit c \<or> c = 0x2B \<or> c = 0x2D \<or> c = 0x2E
      then scheme_state (buffer @ [asciiLower c]) cs
      else if c = 0x3A then Some (buffer, cs)
      else None)"

fun scheme_start_state :: "jsstring \<Rightarrow> (jsstring \<times> jsstring) option" where
  "scheme_start_state [] = None"
| "scheme_start_state (c # cs) = (if isAlpha c then scheme_state [asciiLower c] cs else None)"

text \<open>Host state: the buffer up to the colon, the slash or the end of the input.\<close>

fun host_state :: "jsstring \<Rightarrow> jsstring \<Rightarrow> jsstring \<times> jsstring" where
  "host_state buffer [] = (buffer, [])"
| "host_state buffer (c # cs) =
     (if c = 0x3A \<or> c = 0x2F then (buffer, c # cs) else host_state (buffer @ [c]) cs)"

fun strictly_split :: "code_unit \<Rightarrow> jsstring \<Rightarrow> jsstring list" where
  "strictly_split d [] = [[]]"
| "strictly_split d (c # cs) =
     (if c = d then [] # strictly_split d cs
      else (case strictly_split d cs of [] \<Rightarrow> [[c]] | l # ls \<Rightarrow> (c # l) # ls))"

text \<open>
  The host parser on a buffer of letters, digits, dots and hyphens: the domain lower-cased.
  A domain ends in a number only if its last label (an empty last label dropped) starts
  with a digit; such a domain goes to the IPv4 parser, and a label starting with
  \<^verbatim>\<open>xn--\<close> to the punycode decoder, neither of which is modelled (\<open>None\<close>).
\<close>

definition may_end_in_a_number :: "jsstring \<Rightarrow> bool" where
  "may_end_in_a_number domain =
     (let parts = strictly_split 0x2E domain;
          parts = (if last parts = [] \<and> 1 < length parts then butlast parts else parts)
      in last parts \<noteq> [] \<and> isDigit (hd (last parts)))"

definition has_punycode_label :: "jsstring \<Rightarrow> bool" where
  "has_punycode_label domain =
     list_ex (\<lambda>label. take 4 (map asciiLower label) = js ''xn--'') (strictly_split 0x2E domain)"

definition host_parser :: "jsstring \<Rightarrow> jsstring option" where
  "host_parser buffer =
     (if has_punycode_label buffer \<or> may_end_in_a_number buffer then None
      else Some (map asciiLower buffer))"

text \<open>Port state: digits up to the slash or the end; any other character is a failure.\<close>

fun port_state :: "jsstring \<Rightarrow> jsstring \<Rightarrow> (jsstring \<times> jsstring) option" where
  "port_state buffer [] = Some (buffer, [])"
| "port_state buffer (c # cs) =
     (if isDigit c then port_state (buffer @ [c]) cs
      else if c = 0x2F then Some (buffer, c # cs)
      else None)"

definition decimal :: "jsstring \<Rightarrow> nat" where
  "decimal buffer = foldl (\<lambda>n c. 10 * n + (unat c - 0x30)) 0 buffer"

fun to_decimal :: "nat \<Rightarrow> jsstring" where
  "to_decimal n =
     (if n < 10 then [0x30 + of_nat n] else to_decimal (n div 10) @ [0x30 + of_nat (n mod 10)])"

definition default_port :: "jsstring \<Rightarrow> nat" where
  "default_port scheme = (if scheme = js ''http'' then 80 else 443)"

text \<open>
  Path start state and path state: the segments between slashes; a \<^verbatim>\<open>..\<close> segment
  shortens the path, a \<^verbatim>\<open>.\<close> segment is dropped, and either one at the end of the input
  leaves an empty last segment.
\<close>

definition shorten :: "jsstring list \<Rightarrow> jsstring list" where
  "shorten path = butlast path"

fun path_state :: "jsstring list \<Rightarrow> jsstring \<Rightarrow> jsstring \<Rightarrow> jsstring list" where
  "path_state path buffer [] =
     (if buffer = js ''..'' then shorten path @ [[]]
      else if buffer = js ''.'' then path @ [[]]
      else path @ [buffer])"
| "path_state path buffer (c # cs) =
     (if c = 0x2F then
        (if buffer = js ''..'' then path_state (shorten path) [] cs
         else if buffer = js ''.'' then path_state path [] cs
         else path_state (path @ [buffer]) [] cs)
      else path_state path (buffer @ [c]) cs)"

fun path_start_state :: "jsstring \<Rightarrow> jsstring list" where
  "path_start_state [] = path_state [] [] []"
| "path_start_state (c # cs) =
     (if c = 0x2F then path_state [] [] cs else path_state [] [] (c # cs))"

definition URL_serializer ::
  "jsstring \<Rightarrow> jsstring \<Rightarrow> nat option \<Rightarrow> jsstring list \<Rightarrow> jsstring" where
  "URL_serializer scheme host port path =
     scheme @ js '':'' @ js ''//'' @ host @
     (case port of None \<Rightarrow> [] | Some p \<Rightarrow> js '':'' @ to_decimal p) @
     concat (map (\<lambda>segment. js ''/'' @ segment) path)"

text \<open>
  The parser on the fragment. After the scheme of a special URL every slash is skipped
  (special authority slashes and special authority ignore slashes states); an empty host
  is a failure; a port above 65535 is a failure, and the scheme's default port is dropped.
\<close>

definition URL_fragment :: "jsstring \<Rightarrow> url_result" where
  "URL_fragment input =
     (if \<not> list_all inFragment input then Unmodelled
      else
        (case scheme_start_state input of
           None \<Rightarrow> Failure
         | Some (scheme, rest) \<Rightarrow>
             if scheme \<noteq> js ''http'' \<and> scheme \<noteq> js ''https'' then Unmodelled
             else
               (case host_state [] (dropWhile (\<lambda>c. c = 0x2F) rest) of
                  (buffer, rest) \<Rightarrow>
                    if buffer = [] then Failure
                    else
                      (case host_parser buffer of
                         None \<Rightarrow> Unmodelled
                       | Some host \<Rightarrow>
                           (case rest of
                              [] \<Rightarrow> Href (URL_serializer scheme host None (path_start_state []))
                            | c # cs \<Rightarrow>
                                if c = 0x3A then
                                  (case port_state [] cs of
                                     None \<Rightarrow> Failure
                                   | Some (digits, rest) \<Rightarrow>
                                       if digits = [] then
                                         Href (URL_serializer scheme host None
                                           (path_start_state rest))
                                       else if 65535 < decimal digits then Failure
                                       else
                                         Href (URL_serializer scheme host
                                           (if decimal digits = default_port scheme then None
                                            else Some (decimal digits))
                                           (path_start_state rest)))
                                else
                                  Href (URL_serializer scheme host None
                                    (path_start_state rest)))))))"

text \<open>
  A parser \<open>URL\<close> implements the platform's on the fragment when it agrees with
  \<open>URL_fragment\<close> wherever that is not \<open>Unmodelled\<close>. \<open>fragment_URL\<close> is one such parser (it
  fails outside the fragment) and serves as the concrete instance in closed statements.
\<close>

definition implements_URL :: "(jsstring \<Rightarrow> jsstring option) \<Rightarrow> bool" where
  "implements_URL URL \<longleftrightarrow>
     (\<forall>s. case URL_fragment s of
            Href h \<Rightarrow> URL s = Some h
          | Failure \<Rightarrow> URL s = None
          | Unmodelled \<Rightarrow> True)"

definition fragment_URL :: "jsstring \<Rightarrow> jsstring option" where
  "fragment_URL s =
     (case URL_fragment s of Href h \<Rightarrow> Some h | Failure \<Rightarrow> None | Unmodelled \<Rightarrow> None)"

section \<open>Notions used to state the results\<close>

text \<open>
  The lines of the vCard, in order: a closed form of what \<open>generateVCardString\<close> builds by
  appending. An optional line is there when its field is not empty after trimming; the
  address line when the joined address has a character other than the semicolons.
\<close>

definition optional_line :: "string \<Rightarrow> jsstring \<Rightarrow> jsstring list" where
  "optional_line tag field = (if trim field = [] then [] else [js tag @ trim field])"

definition address_line :: "VCardData \<Rightarrow> jsstring list" where
  "address_line d =
     (let address = js '';;'' @ trim (street d) @ js '';'' @ trim (city d) @ js '';'' @
                    trim (state d) @ js '';'' @ trim (zip' d) @ js '';'' @ trim (country d)
      in if list_all (\<lambda>c. c = 0x3B) address then [] else [js ''ADR:'' @ address])"

definition vcard_lines :: "VCardData \<Rightarrow> jsstring list" where
  "vcard_lines d =
     [js ''BEGIN:VCARD'', js ''VERSION:3.0'',
      js ''FN:'' @ trim (firstName d) @ js '' '' @ trim (lastName d),
      js ''N:'' @ trim (lastName d) @ js '';'' @ trim (firstName d) @ js '';;;''] @
     optional_line ''EMAIL:'' (VCardData.email d) @
     optional_line ''TEL;TYPE=CELL:'' (mobile d) @
     optional_line ''TEL;TYPE=HOME:'' (VCardData.phone d) @
     optional_line ''TEL;TYPE=WORK:'' (workPhone d) @
     optional_line ''TEL;TYPE=FAX:'' (fax d) @
     optional_line ''ORG:'' (company d) @
     optional_line ''TITLE:'' (jobTitle d) @
     address_line d @
     optional_line ''URL:'' (website d) @
     [js ''END:VCARD'']"

text \<open>
  The lines of a string are its pieces between line feeds; \<open>all_fields\<close> lists the fields
  of a contact.
\<close>

definition lines_of :: "jsstring \<Rightarrow> jsstring list" where
  "lines_of s = strictly_split LF s"

definition all_fields :: "VCardData \<Rightarrow> jsstring list" where
  "all_fields d =
     [firstName d, lastName d, mobile d, VCardData.phone d, workPhone d, fax d,
      VCardData.email d, company d, jobTitle d, street d, city d, zip' d, state d,
      country d, website d]"

text \<open>
  The code units an encoded URI component is made of (the unreserved set and the percent
  sign), the control characters (C0, DEL and C1), and the class of a regular expression atom.
\<close>

definition uriSafe :: "code_unit \<Rightarrow> bool" where
  "uriSafe c \<longleftrightarrow> uriUnescaped c \<or> c = 0x25"

definition isControl :: "code_unit \<Rightarrow> bool" where
  "isControl c \<longleftrightarrow> c < 0x20 \<or> (0x7F \<le> c \<and> c \<le> 0x9F)"

fun atom_class :: "atom \<Rightarrow> code_unit \<Rightarrow> bool" where
  "atom_class (Single p) = p"
| "atom_class (OneOrMore p) = p"

subsection \<open>Sample inputs\<close>

definition contact :: "string \<Rightarrow> string \<Rightarrow> VCardData" where
  "contact f l =
     \<lparr>firstName = js f, lastName = js l, mobile = [], VCardData.phone = [],
      workPhone = [], fax = [], VCardData.email = [], company = [], jobTitle = [],
      street = [], city = [], zip' = [], state = [], country = [], website = []\<rparr>"

definition sample_params :: QRCodeParams where
  "sample_params =
     \<lparr>url = js ''example.com'',
      vcardData = contact ''Jane'' ''Doe'',
      emailData = \<lparr>EmailData.email = js ''a@b.com'', subject = js ''Hi there'', body = []\<rparr>,
      smsData = \<lparr>SMSData.phone = js ''555-1234'', message = []\<rparr>,
      text' = js ''hello'',
      wifiData = \<lparr>ssid = js ''Home'', password = [], encryption = nopass, hidden = False\<rparr>\<rparr>"

section \<open>Lemmas\<close>

subsection \<open>Trimming\<close>

lemma dropWhile_first: "dropWhile P xs = y # ys \<Longrightarrow> \<not> P y"
  by (induction xs) (auto split: if_splits)

lemma dropWhile_rev_dropWhile_Nil:
  "dropWhile P (rev (dropWhile P xs)) = [] \<longleftrightarrow> list_all P xs"
proof (cases "dropWhile P xs")
  case Nil
  have "list_all P xs"
    using Nil unfolding dropWhile_eq_Nil_conv list_all_iff .
  then show ?thesis
    unfolding Nil by simp
next
  case (Cons y ys)
  then have ny: "\<not> P y" by (rule dropWhile_first)
  have "y \<in> set (dropWhile P xs)" unfolding Cons by simp
  then have "y \<in> set xs" by (rule set_dropWhileD)
  then have r: "\<not> list_all P xs" using ny by (auto simp: list_all_iff)
  have "\<not> list_all P (rev (y # ys))" using ny by simp
  then have "dropWhile P (rev (y # ys)) \<noteq> []"
    unfolding dropWhile_eq_Nil_conv list_all_iff .
  then show ?thesis using r unfolding Cons by blast
qed

lemma trim_Nil_iff: "trim s = [] \<longleftrightarrow> list_all isWhiteSpace s"
  unfolding trim_def rev_is_Nil_conv by (rule dropWhile_rev_dropWhile_Nil)

lemma truthy_trim: "truthy (trim s) \<longleftrightarrow> \<not> list_all isWhiteSpace s"
  by (simp add: truthy_def trim_Nil_iff)

lemma dropWhile_hd_fixed: "xs = [] \<or> \<not> P (hd xs) \<Longrightarrow> dropWhile P xs = xs"
  by (cases xs) auto

lemma hd_dropWhile_rev_dropWhile:
  "rev (dropWhile P (rev (dropWhile P xs))) = [] \<or>
   \<not> P (hd (rev (dropWhile P (rev (dropWhile P xs)))))"
proof -
  define u where "u = dropWhile P xs"
  define t where "t = rev (dropWhile P (rev u))"
  have "rev u = takeWhile P (rev u) @ dropWhile P (rev u)"
    by (rule takeWhile_dropWhile_id [symmetric])
  then have "rev (rev u) = rev (takeWhile P (rev u) @ dropWhile P (rev u))"
    by (rule arg_cong)
  then have split: "u = t @ rev (takeWhile P (rev u))"
    unfolding t_def rev_append rev_rev_ident .
  have "\<not> P (hd t)" if "t \<noteq> []"
  proof -
    from that split have e: "hd u = hd t"
      by (metis hd_append2)
    from that split have "u \<noteq> []"
      by (metis append_is_Nil_conv)
    then have "\<not> P (hd u)"
      unfolding u_def by (rule hd_dropWhile)
    then show ?thesis unfolding e .
  qed
  then show ?thesis
    unfolding t_def u_def by blast
qed

lemma trim_idem: "trim (trim s) = trim s"
proof -
  let ?t = "rev (dropWhile isWhiteSpace (rev (dropWhile isWhiteSpace s)))"
  have 1: "dropWhile isWhiteSpace ?t = ?t"
    by (rule dropWhile_hd_fixed) (rule hd_dropWhile_rev_dropWhile)
  show ?thesis
    unfolding trim_def by (simp only: 1 rev_rev_ident dropWhile_idem)
qed

lemma trim_ends:
  "trim s = [] \<or> (\<not> isWhiteSpace (hd (trim s)) \<and> \<not> isWhiteSpace (last (trim s)))"
proof (cases "trim s = []")
  case True then show ?thesis by simp
next
  case False
  have h: "\<not> isWhiteSpace (hd (trim s))"
    using hd_dropWhile_rev_dropWhile [of isWhiteSpace s] False unfolding trim_def by blast
  have "dropWhile isWhiteSpace (rev (dropWhile isWhiteSpace s)) \<noteq> []"
    using False unfolding trim_def rev_is_Nil_conv .
  then have "\<not> isWhiteSpace (hd (dropWhile isWhiteSpace (rev (dropWhile isWhiteSpace s))))"
    by (rule hd_dropWhile)
  then have "\<not> isWhiteSpace (last (trim s))"
    unfolding trim_def last_rev .
  with h show ?thesis by simp
qed

lemma or_else_Nil: "or_else s [] = s"
  by (simp add: or_else_def truthy_def)

subsection \<open>The regular expressions\<close>

lemma matches_OneOrMore: "matches [OneOrMore p] s \<longleftrightarrow> s \<noteq> [] \<and> list_all p s"
proof (induction s)
  case Nil then show ?case by simp
next
  case (Cons c cs) then show ?case by (cases cs) auto
qed

lemma matches_PHONE_RE: "matches PHONE_RE s \<longleftrightarrow> s \<noteq> [] \<and> list_all phoneClass s"
  by (simp add: PHONE_RE_def matches_OneOrMore)

lemma matches_list_all:
  "matches r s \<Longrightarrow> list_all (\<lambda>a. \<forall>c. atom_class a c \<longrightarrow> Q c) r \<Longrightarrow> list_all Q s"
  by (induction r s rule: matches.induct) auto

lemma matches_EMAIL_RE_no_space:
  "matches EMAIL_RE s \<Longrightarrow> list_all (\<lambda>c. \<not> isWhiteSpace c) s"
  by (erule matches_list_all) (simp add: EMAIL_RE_def notSpaceOrAt_def isWhiteSpace_def)

lemma phoneClass_not_colon: "phoneClass c \<Longrightarrow> c \<noteq> 0x3A"
  by (auto simp: phoneClass_def isDigit_def isWhiteSpace_def)

subsection \<open>Percent-encoding\<close>

lemma lt16_cases:
  "n < (16::nat) \<Longrightarrow> n \<in> {0, 1, 2, 3, 4, 5, 6, 7, 8, 9, 10, 11, 12, 13, 14, 15}"
  by (simp only: insert_iff empty_iff) arith

lemma hexDigit_unescaped: "n < 16 \<Longrightarrow> uriUnescaped (hexDigit n)"
  by (drule lt16_cases) (auto simp: hexDigit_def uriUnescaped_def isDigit_def isUpper_def)

lemma percentEscape_safe: "b < 256 \<Longrightarrow> list_all uriSafe (percentEscape b)"
proof -
  assume "b < 256"
  then have "b div 16 < 16" and "b mod 16 < 16" by simp_all
  then show ?thesis
    by (simp add: percentEscape_def uriSafe_def hexDigit_unescaped)
qed

lemma utf8_octets: "cp < 0x110000 \<Longrightarrow> list_all (\<lambda>b. b < 256) (utf8 cp)"
  by (simp add: utf8_def) arith

lemma escapeCodePoint_safe: "cp < 0x110000 \<Longrightarrow> list_all uriSafe (escapeCodePoint cp)"
  unfolding escapeCodePoint_def list_all_iff
  using percentEscape_safe utf8_octets unfolding list_all_iff by fastforce

lemma escapeCodePoint_not_Nil: "escapeCodePoint cp \<noteq> []"
  by (simp add: escapeCodePoint_def utf8_def percentEscape_def)

lemma code_unit_bound: "unat (c :: code_unit) < 0x110000"
  using unsigned_less [of c, where 'a = nat] by simp

lemma surrogatePair_bound:
  "isLeadingSurrogate c \<Longrightarrow> isTrailingSurrogate d \<Longrightarrow> surrogatePairToCodePoint c d < 0x110000"
  by (simp add: isLeadingSurrogate_def isTrailingSurrogate_def surrogatePairToCodePoint_def
        word_le_nat_alt) arith

lemma encodeURIComponent_safe:
  "encodeURIComponent s = Some out \<Longrightarrow> list_all uriSafe out"
proof (induction s arbitrary: out rule: encodeURIComponent.induct)
  case 1
  then show ?case by simp
next
  case (2 c cs)
  show ?case
  proof (cases "uriUnescaped c")
    case True
    with 2 show ?thesis by (auto simp: uriSafe_def)
  next
    case False
    note nu = this
    show ?thesis
    proof (cases "isLeadingSurrogate c")
      case True
      with 2 nu show ?thesis
        by (auto simp: escapeCodePoint_safe surrogatePair_bound
            split: if_splits list.splits)
    next
      case False
      with 2 nu show ?thesis
        by (auto simp: escapeCodePoint_safe code_unit_bound split: if_splits)
    qed
  qed
qed

lemma encodeURIComponent_Nil_iff:
  "encodeURIComponent s = Some out \<Longrightarrow> out = [] \<longleftrightarrow> s = []"
  by (cases s) (auto simp: escapeCodePoint_not_Nil split: if_splits list.splits)

lemma uriSafe_not_colon: "uriSafe c \<Longrightarrow> c \<noteq> 0x3A"
  by (auto simp: uriSafe_def uriUnescaped_def isUpper_def isLower_def isDigit_def)

lemma uriSafe_not_control: "uriSafe c \<Longrightarrow> \<not> isControl c"
  by (auto simp: uriSafe_def uriUnescaped_def isControl_def isUpper_def isLower_def isDigit_def
        word_le_nat_alt word_less_nat_alt)

lemma encodeURIComponent_no_control:
  "encodeURIComponent s = Some out \<Longrightarrow> list_all (\<lambda>c. uriSafe c \<and> \<not> isControl c) out"
  by (drule encodeURIComponent_safe) (auto simp: list_all_iff dest: uriSafe_not_control)

lemma count_list_none: "list_all (\<lambda>c. c \<noteq> x) s \<Longrightarrow> count_list s x = 0"
  by (induction s) auto

lemma count_colon_phone: "list_all phoneClass s \<Longrightarrow> count_list s 0x3A = 0"
  by (rule count_list_none) (auto simp: list_all_iff dest: phoneClass_not_colon)

lemma count_colon_encoded: "encodeURIComponent s = Some m \<Longrightarrow> count_list m 0x3A = 0"
  by (rule count_list_none, drule encodeURIComponent_safe)
     (auto simp: list_all_iff dest: uriSafe_not_colon)

lemma count_list_app: "count_list (a @ b) x = count_list a x + count_list b x"
  by (induction a) auto

subsection \<open>The validators as chains of checks\<close>

lemma get_field_phones:
  "get_field d (js ''mobile'') = Some (mobile d)"
  "get_field d (js ''phone'') = Some (VCardData.phone d)"
  "get_field d (js ''workPhone'') = Some (workPhone d)"
  "get_field d (js ''fax'') = Some (fax d)"
  by (simp_all add: get_field_def js_def)

lemma phone_field_messages:
  "js ''Please enter a valid '' @ toLowerCase (replace_capitals (js ''mobile'')) =
     js ''Please enter a valid mobile''"
  "js ''Please enter a valid '' @ toLowerCase (replace_capitals (js ''phone'')) =
     js ''Please enter a valid phone''"
  "js ''Please enter a valid '' @ toLowerCase (replace_capitals (js ''workPhone'')) =
     js ''Please enter a valid work phone''"
  "js ''Please enter a valid '' @ toLowerCase (replace_capitals (js ''fax'')) =
     js ''Please enter a valid fax''"
  by (simp_all add: toLowerCase_def replace_capitals_def js_def isUpper_def)

lemma forEach_phoneFields_chain:
  "forEach_phoneFields d phoneFields =
     (if mobile d \<noteq> [] \<and> \<not> list_all phoneClass (mobile d)
      then Inl (Error (js ''Please enter a valid mobile''))
      else if VCardData.phone d \<noteq> [] \<and> \<not> list_all phoneClass (VCardData.phone d)
      then Inl (Error (js ''Please enter a valid phone''))
      else if workPhone d \<noteq> [] \<and> \<not> list_all phoneClass (workPhone d)
      then Inl (Error (js ''Please enter a valid work phone''))
      else if fax d \<noteq> [] \<and> \<not> list_all phoneClass (fax d)
      then Inl (Error (js ''Please enter a valid fax''))
      else Inr ())"
  unfolding phoneFields_def forEach_phoneFields.simps get_field_phones option.case
    phone_field_messages matches_PHONE_RE truthy_def
  by simp

lemma validateVCardData_chain:
  "validateVCardData d =
     (if trim (firstName d) = [] \<or> trim (lastName d) = []
      then Inl (Error (js ''Please enter both first and last name''))
      else if VCardData.email d \<noteq> [] \<and> \<not> matches EMAIL_RE (VCardData.email d)
      then Inl (Error (js ''Please enter a valid email address''))
      else if mobile d \<noteq> [] \<and> \<not> list_all phoneClass (mobile d)
      then Inl (Error (js ''Please enter a valid mobile''))
      else if VCardData.phone d \<noteq> [] \<and> \<not> list_all phoneClass (VCardData.phone d)
      then Inl (Error (js ''Please enter a valid phone''))
      else if workPhone d \<noteq> [] \<and> \<not> list_all phoneClass (workPhone d)
      then Inl (Error (js ''Please enter a valid work phone''))
      else if fax d \<noteq> [] \<and> \<not> list_all phoneClass (fax d)
      then Inl (Error (js ''Please enter a valid fax''))
      else Inr ())"
  unfolding validateVCardData_def forEach_phoneFields_chain
  by (simp add: truthy_def)

lemma validateEmailData_chain:
  "validateEmailData e =
     (if trim (EmailData.email e) = []
      then Inl (Error (js ''Please enter an email address''))
      else if \<not> matches EMAIL_RE (EmailData.email e)
      then Inl (Error (js ''Please enter a valid email address''))
      else Inr ())"
  by (simp add: validateEmailData_def truthy_def)

lemma validateSMSData_chain:
  "validateSMSData d =
     (if trim (SMSData.phone d) = []
      then Inl (Error (js ''Please enter a phone number''))
      else if \<not> list_all phoneClass (SMSData.phone d)
      then Inl (Error (js ''Please enter a valid phone number''))
      else Inr ())"
  by (auto simp: validateSMSData_def truthy_def matches_PHONE_RE trim_def)

lemma validateWiFiData_chain:
  "validateWiFiData w =
     (if trim (ssid w) = []
      then Inl (Error (js ''Please enter a network name (SSID)''))
      else if encryption w \<noteq> nopass \<and> trim (password w) = []
      then Inl (Error (js ''Please enter a network password''))
      else Inr ())"
  by (simp add: validateWiFiData_def truthy_def)

subsection \<open>The builders\<close>

lemma join_Cons: "join sep (x # xs) = x @ concat (map (\<lambda>l. sep @ l) xs)"
  by (induction sep "x # xs" arbitrary: x xs rule: join.induct) simp_all

lemma join_LF: "join [LF] (x # xs) = x @ concat (map ((#) LF) xs)"
proof -
  have "(\<lambda>l. [LF] @ l) = (#) LF" by (rule ext) simp
  then show ?thesis using join_Cons [of "[LF]" x xs] by simp
qed

lemma append_line_lines:
  "append_line v tag f = v @ concat (map ((#) LF) (optional_line tag f))"
  by (simp add: append_line_def optional_line_def truthy_def)

lemma truthy_remove_semicolons:
  "truthy (remove_semicolons s) \<longleftrightarrow> \<not> list_all (\<lambda>c. c = 0x3B) s"
  by (auto simp: truthy_def remove_semicolons_def filter_empty_conv list_all_iff)

lemma address_lines:
  "(if truthy (remove_semicolons
         (join (js '';'') [[], [], or_else (trim (street d)) [], or_else (trim (city d)) [],
            or_else (trim (state d)) [], or_else (trim (zip' d)) [], or_else (trim (country d)) []]))
    then v @ [LF] @ js ''ADR:'' @
         join (js '';'') [[], [], or_else (trim (street d)) [], or_else (trim (city d)) [],
            or_else (trim (state d)) [], or_else (trim (zip' d)) [], or_else (trim (country d)) []]
    else v) = v @ concat (map ((#) LF) (address_line d))"
  by (simp add: truthy_remove_semicolons or_else_Nil address_line_def Let_def js_def)

lemma generateVCardString_lines:
  assumes "validateVCardData d = Inr ()"
  shows "generateVCardString d = Inr (join [LF] (vcard_lines d))"
  unfolding generateVCardString_def assms sum.case Let_def address_lines append_line_lines
  by (simp add: vcard_lines_def join_LF)

lemma address_line_only_when:
  assumes "address_line d \<noteq> []"
  shows "trim (street d) \<noteq> [] \<or> trim (city d) \<noteq> [] \<or> trim (state d) \<noteq> [] \<or>
         trim (zip' d) \<noteq> [] \<or> trim (country d) \<noteq> []"
proof (rule ccontr)
  assume "\<not> ?thesis"
  then have "address_line d = []"
    by (simp add: address_line_def js_def)
  with assms show False by simp
qed

lemma generateEmailString_Inr:
  assumes "generateEmailString m = Inr out"
  shows "\<exists>s b. encodeURIComponent (subject m) = Some s \<and> encodeURIComponent (body m) = Some b \<and>
         out = js ''mailto:'' @ EmailData.email m @ js ''?subject='' @ s @ js ''&body='' @ b"
proof (cases "encodeURIComponent (subject m)")
  case None
  with assms show ?thesis
    by (simp add: generateEmailString_def or_else_Nil split: sum.splits)
next
  case s: (Some s)
  show ?thesis
  proof (cases "encodeURIComponent (body m)")
    case None
    with assms s show ?thesis
      by (simp add: generateEmailString_def or_else_Nil split: sum.splits)
  next
    case (Some b)
    with assms s show ?thesis
      by (simp add: generateEmailString_def or_else_Nil split: sum.splits)
  qed
qed

lemma generateEmailString_valid:
  "generateEmailString m = Inr out \<Longrightarrow> validateEmailData m = Inr ()"
  by (simp add: generateEmailString_def split: sum.splits)

lemma generateSMSString_Inr:
  assumes "generateSMSString t = Inr out"
  shows "\<exists>e. encodeURIComponent (message t) = Some e \<and>
         out = js ''sms:'' @ SMSData.phone t @ (if e = [] then [] else js '':'' @ e)"
proof (cases "encodeURIComponent (message t)")
  case None
  with assms show ?thesis
    by (simp add: generateSMSString_def or_else_Nil split: sum.splits)
next
  case (Some e)
  with assms show ?thesis
    by (auto simp: generateSMSString_def or_else_Nil truthy_def split: sum.splits)
qed

lemma generateSMSString_valid:
  "generateSMSString t = Inr out \<Longrightarrow> validateSMSData t = Inr ()"
  by (simp add: generateSMSString_def split: sum.splits)

lemma generateWiFiString_Inr:
  assumes "generateWiFiString w = Inr out"
  shows "out = js ''WIFI:T:'' @ encryption_string (encryption w) @ js '';S:'' @ ssid w @
              js '';P:'' @ password w @ (if hidden w then js '';H:true'' else []) @ js '';;''"
  using assms by (auto simp: generateWiFiString_def split: sum.splits)

subsection \<open>The lines of the vCard\<close>

lemma trim_decomposition:
  "\<exists>a b. s = a @ trim s @ b \<and> list_all isWhiteSpace a \<and> list_all isWhiteSpace b"
proof -
  define u where "u = dropWhile isWhiteSpace s"
  have 1: "s = takeWhile isWhiteSpace s @ u"
    unfolding u_def by (rule takeWhile_dropWhile_id [symmetric])
  have "rev u = takeWhile isWhiteSpace (rev u) @ dropWhile isWhiteSpace (rev u)"
    by (rule takeWhile_dropWhile_id [symmetric])
  then have "rev (rev u) =
      rev (takeWhile isWhiteSpace (rev u) @ dropWhile isWhiteSpace (rev u))"
    by (rule arg_cong)
  then have 2: "u = trim s @ rev (takeWhile isWhiteSpace (rev u))"
    unfolding trim_def u_def rev_append rev_rev_ident .
  have 3: "list_all isWhiteSpace (takeWhile isWhiteSpace xs)" for xs
    by (auto simp: list_all_iff dest: set_takeWhileD)
  have 4: "list_all isWhiteSpace (rev (takeWhile isWhiteSpace (rev u)))"
    using 3 [of "rev u"] by (simp add: list_all_iff)
  have "s = takeWhile isWhiteSpace s @ trim s @ rev (takeWhile isWhiteSpace (rev u))"
    using 1 2 by (simp only:)
  with 3 [of s] 4 show ?thesis by blast
qed

lemma strictly_split_none: "d \<notin> set s \<Longrightarrow> strictly_split d s = [s]"
  by (induction s) auto

lemma strictly_split_at: "d \<notin> set a \<Longrightarrow> strictly_split d (a @ d # b) = a # strictly_split d b"
  by (induction a) auto

lemma lines_of_join:
  "ls \<noteq> [] \<Longrightarrow> list_all (\<lambda>l. LF \<notin> set l) ls \<Longrightarrow> lines_of (join [LF] ls) = ls"
proof (induction "[LF]" ls rule: join.induct)
  case 1
  then show ?case by simp
next
  case (2 x)
  then show ?case by (simp add: lines_of_def strictly_split_none)
next
  case (3 x y ys)
  then show ?case by (simp add: lines_of_def strictly_split_at)
qed

lemma optional_line_iff:
  "optional_line tag f = (if list_all isWhiteSpace f then [] else [js tag @ trim f])"
  by (simp add: optional_line_def trim_Nil_iff)

lemma LF_free_literals:
  "LF \<notin> set (js ''BEGIN:VCARD'')" "LF \<notin> set (js ''VERSION:3.0'')" "LF \<notin> set (js ''FN:'')"
  "LF \<notin> set (js '' '')" "LF \<notin> set (js ''N:'')" "LF \<notin> set (js '';'')" "LF \<notin> set (js '';;;'')"
  "LF \<notin> set (js '';;'')" "LF \<notin> set (js ''ADR:'')" "LF \<notin> set (js ''END:VCARD'')"
  "LF \<notin> set (js ''EMAIL:'')" "LF \<notin> set (js ''TEL;TYPE=CELL:'')"
  "LF \<notin> set (js ''TEL;TYPE=HOME:'')" "LF \<notin> set (js ''TEL;TYPE=WORK:'')"
  "LF \<notin> set (js ''TEL;TYPE=FAX:'')" "LF \<notin> set (js ''ORG:'')" "LF \<notin> set (js ''TITLE:'')"
  "LF \<notin> set (js ''URL:'')"
  by (simp_all add: js_def LF_def)

lemma optional_line_LF_free:
  "LF \<notin> set (js tag) \<Longrightarrow> LF \<notin> set (trim f) \<Longrightarrow> list_all (\<lambda>l. LF \<notin> set l) (optional_line tag f)"
  by (simp add: optional_line_def)

lemma vcard_lines_LF_free:
  assumes "list_all (\<lambda>f. LF \<notin> set (trim f)) (all_fields d)"
  shows "list_all (\<lambda>l. LF \<notin> set l) (vcard_lines d)"
proof -
  from assms have f: "LF \<notin> set (trim (firstName d))" "LF \<notin> set (trim (lastName d))"
    "LF \<notin> set (trim (mobile d))" "LF \<notin> set (trim (VCardData.phone d))"
    "LF \<notin> set (trim (workPhone d))" "LF \<notin> set (trim (fax d))"
    "LF \<notin> set (trim (VCardData.email d))" "LF \<notin> set (trim (company d))"
    "LF \<notin> set (trim (jobTitle d))" "LF \<notin> set (trim (street d))"
    "LF \<notin> set (trim (city d))" "LF \<notin> set (trim (zip' d))" "LF \<notin> set (trim (state d))"
    "LF \<notin> set (trim (country d))" "LF \<notin> set (trim (website d))"
    by (simp_all add: all_fields_def)
  have a: "list_all (\<lambda>l. LF \<notin> set l) (address_line d)"
    using f LF_free_literals by (simp add: address_line_def Let_def)
  show ?thesis
    unfolding vcard_lines_def list_all_append
    using f a LF_free_literals by (simp add: optional_line_LF_free)
qed

lemma vcard_lines_not_Nil: "vcard_lines d \<noteq> []"
  by (simp add: vcard_lines_def)

lemma generateVCardString_lines_of:
  assumes "validateVCardData d = Inr ()"
    and "list_all (\<lambda>f. LF \<notin> set (trim f)) (all_fields d)"
  shows "\<exists>out. generateVCardString d = Inr out \<and> lines_of out = vcard_lines d"
  using generateVCardString_lines [OF assms(1)]
    lines_of_join [OF vcard_lines_not_Nil vcard_lines_LF_free [OF assms(2)]]
  by simp

lemma address_line_only_when_ws:
  assumes "address_line d \<noteq> []"
  shows "\<not> list_all isWhiteSpace (street d) \<or> \<not> list_all isWhiteSpace (city d) \<or>
         \<not> list_all isWhiteSpace (state d) \<or> \<not> list_all isWhiteSpace (zip' d) \<or>
         \<not> list_all isWhiteSpace (country d)"
  using address_line_only_when [OF assms] by (simp add: trim_Nil_iff)

subsection \<open>What is thrown\<close>

lemma forEach_phoneFields_Error:
  "forEach_phoneFields d fs = Inl e \<Longrightarrow> instanceof_Error e"
  by (induction fs) (auto split: option.splits if_splits)

lemma validators_throw_Error:
  "validateVCardData v = Inl e \<Longrightarrow> instanceof_Error e"
  "validateEmailData m = Inl e \<Longrightarrow> instanceof_Error e"
  "validateSMSData s = Inl e \<Longrightarrow> instanceof_Error e"
  "validateText t = Inl e \<Longrightarrow> instanceof_Error e"
  "validateWiFiData w = Inl e \<Longrightarrow> instanceof_Error e"
  "validateUrl URL u = Inl e \<Longrightarrow> instanceof_Error e"
  by (auto simp: validateVCardData_def validateEmailData_def validateSMSData_def
        validateText_def validateWiFiData_def validateUrl_def Let_def
      dest: forEach_phoneFields_Error split: if_splits option.splits)

lemma builders_throw_Error:
  "generateVCardString v = Inl e \<Longrightarrow> instanceof_Error e"
  "generateEmailString m = Inl e \<Longrightarrow> instanceof_Error e"
  "generateSMSString s = Inl e \<Longrightarrow> instanceof_Error e"
  "generateWiFiString w = Inl e \<Longrightarrow> instanceof_Error e"
  by (auto simp: generateVCardString_def generateEmailString_def generateSMSString_def
        generateWiFiString_def Let_def
      dest: validators_throw_Error split: sum.splits option.splits)

lemma qr_data_throws_Error: "qr_data URL t p = Inl e \<Longrightarrow> instanceof_Error e"
  by (auto simp: qr_data_def dest: validators_throw_Error builders_throw_Error
      split: if_splits sum.splits)

subsection \<open>The URL parser on the examples\<close>

lemma fragment_URL_implements: "implements_URL fragment_URL"
  by (simp add: implements_URL_def fragment_URL_def split: url_result.split)

lemma URL_fragment_examples:
  "URL_fragment (js ''example.com'') = Failure"
  "URL_fragment (js ''https://example.com'') = Href (js ''https://example.com/'')"
  "URL_fragment (js ''http://'') = Failure"
  "URL_fragment (js ''https://http://'') = Href (js ''https://http//'')"
  by code_simp+

lemma implements_URL_examples:
  assumes "implements_URL URL"
  shows "URL (js ''example.com'') = None"
    and "URL (js ''https://example.com'') = Some (js ''https://example.com/'')"
    and "URL (js ''http://'') = None"
    and "URL (js ''https://http://'') = Some (js ''https://http//'')"
proof -
  have *: "case URL_fragment s of Href h \<Rightarrow> URL s = Some h | Failure \<Rightarrow> URL s = None
           | Unmodelled \<Rightarrow> True" for s
    using assms unfolding implements_URL_def by blast
  show "URL (js ''example.com'') = None"
    using * [of "js ''example.com''"] unfolding URL_fragment_examples by simp
  show "URL (js ''https://example.com'') = Some (js ''https://example.com/'')"
    using * [of "js ''https://example.com''"] unfolding URL_fragment_examples by simp
  show "URL (js ''http://'') = None"
    using * [of "js ''http://''"] unfolding URL_fragment_examples by simp
  show "URL (js ''https://http://'') = Some (js ''https://http//'')"
    using * [of "js ''https://http://''"] unfolding URL_fragment_examples by simp
qed

lemma trim_literals:
  "trim (js ''example.com'') = js ''example.com''"
  "trim (js ''http://'') = js ''http://''"
  by code_simp+

lemma js_https_append:
  "js ''https://'' @ js ''example.com'' = js ''https://example.com''"
  "js ''https://'' @ js ''http://'' = js ''https://http://''"
  by (simp_all add: js_def)

section \<open>The claims\<close>

subsection \<open>C1: what the builders sanitize\<close>

text \<open>
  C1, as amended. For every input that passes validation: the vCard builder emits every
  field trimmed (the output is the lines of \<open>vcard_lines\<close> joined by line feeds, each field
  under \<open>trim\<close>, and a trimmed string neither starts nor ends with white space); the mailto
  and sms builders percent-encode subject, body and message, so that these segments consist
  of unreserved characters and percent signs only and hold no control character, while the
  email address (free of white space) and the phone number (of the phone class) are emitted
  as validated; the WiFi builder emits ssid and password as they are, neither trimmed nor
  escaped. Nothing removes a control character inside a vCard field or a WiFi field.
\<close>

theorem field_sanitization:
  "(validateVCardData v = Inr () \<longrightarrow> generateVCardString v = Inr (join [LF] (vcard_lines v))) \<and>
   (trim f = [] \<or> \<not> isWhiteSpace (hd (trim f)) \<and> \<not> isWhiteSpace (last (trim f))) \<and>
   (generateEmailString m = Inr out \<longrightarrow>
      (\<exists>s b. encodeURIComponent (subject m) = Some s \<and> encodeURIComponent (body m) = Some b \<and>
         out = js ''mailto:'' @ EmailData.email m @ js ''?subject='' @ s @ js ''&body='' @ b \<and>
         list_all (\<lambda>c. uriSafe c \<and> \<not> isControl c) s \<and>
         list_all (\<lambda>c. uriSafe c \<and> \<not> isControl c) b \<and>
         list_all (\<lambda>c. \<not> isWhiteSpace c) (EmailData.email m))) \<and>
   (generateSMSString t = Inr out' \<longrightarrow>
      (\<exists>e. encodeURIComponent (message t) = Some e \<and>
         out' = js ''sms:'' @ SMSData.phone t @ (if e = [] then [] else js '':'' @ e) \<and>
         list_all (\<lambda>c. uriSafe c \<and> \<not> isControl c) e \<and>
         list_all phoneClass (SMSData.phone t))) \<and>
   (generateWiFiString w = Inr out'' \<longrightarrow>
      out'' = js ''WIFI:T:'' @ encryption_string (encryption w) @ js '';S:'' @ ssid w @
              js '';P:'' @ password w @ (if hidden w then js '';H:true'' else []) @ js '';;'')"
proof (intro conjI impI)
  show "generateVCardString v = Inr (join [LF] (vcard_lines v))" if "validateVCardData v = Inr ()"
    using that by (rule generateVCardString_lines)
  show "trim f = [] \<or> \<not> isWhiteSpace (hd (trim f)) \<and> \<not> isWhiteSpace (last (trim f))"
    by (rule trim_ends)
  show "\<exists>s b. encodeURIComponent (subject m) = Some s \<and> encodeURIComponent (body m) = Some b \<and>
         out = js ''mailto:'' @ EmailData.email m @ js ''?subject='' @ s @ js ''&body='' @ b \<and>
         list_all (\<lambda>c. uriSafe c \<and> \<not> isControl c) s \<and>
         list_all (\<lambda>c. uriSafe c \<and> \<not> isControl c) b \<and>
         list_all (\<lambda>c. \<not> isWhiteSpace c) (EmailData.email m)"
    if "generateEmailString m = Inr out"
  proof -
    from generateEmailString_Inr [OF that] obtain s b
      where *: "encodeURIComponent (subject m) = Some s" "encodeURIComponent (body m) = Some b"
        "out = js ''mailto:'' @ EmailData.email m @ js ''?subject='' @ s @ js ''&body='' @ b"
      by blast
    from *(1) have "list_all (\<lambda>c. uriSafe c \<and> \<not> isControl c) s"
      by (rule encodeURIComponent_no_control)
    moreover from *(2) have "list_all (\<lambda>c. uriSafe c \<and> \<not> isControl c) b"
      by (rule encodeURIComponent_no_control)
    moreover have "matches EMAIL_RE (EmailData.email m)"
      using generateEmailString_valid [OF that]
      by (simp add: validateEmailData_chain split: if_splits)
    then have "list_all (\<lambda>c. \<not> isWhiteSpace c) (EmailData.email m)"
      by (rule matches_EMAIL_RE_no_space)
    ultimately show ?thesis using * by blast
  qed
  show "\<exists>e. encodeURIComponent (message t) = Some e \<and>
         out' = js ''sms:'' @ SMSData.phone t @ (if e = [] then [] else js '':'' @ e) \<and>
         list_all (\<lambda>c. uriSafe c \<and> \<not> isControl c) e \<and>
         list_all phoneClass (SMSData.phone t)"
    if "generateSMSString t = Inr out'"
  proof -
    from generateSMSString_Inr [OF that] obtain e
      where *: "encodeURIComponent (message t) = Some e"
        "out' = js ''sms:'' @ SMSData.phone t @ (if e = [] then [] else js '':'' @ e)"
      by blast
    from *(1) have "list_all (\<lambda>c. uriSafe c \<and> \<not> isControl c) e"
      by (rule encodeURIComponent_no_control)
    moreover have "list_all phoneClass (SMSData.phone t)"
      using generateSMSString_valid [OF that]
      by (simp add: validateSMSData_chain split: if_splits)
    ultimately show ?thesis using * by blast
  qed
  show "out'' = js ''WIFI:T:'' @ encryption_string (encryption w) @ js '';S:'' @ ssid w @
              js '';P:'' @ password w @ (if hidden w then js '';H:true'' else []) @ js '';;''"
    if "generateWiFiString w = Inr out''"
    using that by (rule generateWiFiString_Inr)
qed

theorem field_sanitization_witness:
  "validateVCardData ((contact ''Jane'' ''Doe'')\<lparr>company := js '' Acme ''\<rparr>) = Inr () \<and>
   generateVCardString ((contact ''Jane'' ''Doe'')\<lparr>company := js '' Acme ''\<rparr>) =
     Inr (join [LF]
       [js ''BEGIN:VCARD'', js ''VERSION:3.0'', js ''FN:Jane Doe'', js ''N:Doe;Jane;;;'',
        js ''ORG:Acme'', js ''END:VCARD'']) \<and>
   generateEmailString \<lparr>EmailData.email = js ''a@b.com'', subject = js ''Hi there'', body = []\<rparr> =
     Inr (js ''mailto:a@b.com?subject=Hi%20there&body='') \<and>
   generateSMSString \<lparr>SMSData.phone = js ''555-1234'', message = []\<rparr> = Inr (js ''sms:555-1234'') \<and>
   generateWiFiString \<lparr>ssid = js ''Home'', password = [], encryption = nopass, hidden = True\<rparr> =
     Inr (js ''WIFI:T:nopass;S:Home;P:;H:true;;'')"
proof -
  let ?v = "(contact ''Jane'' ''Doe'')\<lparr>company := js '' Acme ''\<rparr>"
  let ?m = "\<lparr>EmailData.email = js ''a@b.com'', subject = js ''Hi there'', body = []\<rparr>"
  let ?t = "\<lparr>SMSData.phone = js ''555-1234'', message = []\<rparr>"
  let ?w = "\<lparr>ssid = js ''Home'', password = [], encryption = nopass, hidden = True\<rparr>"
  have v: "validateVCardData ?v = Inr ()" by code_simp
  have l: "join [LF] (vcard_lines ?v) = join [LF]
       [js ''BEGIN:VCARD'', js ''VERSION:3.0'', js ''FN:Jane Doe'', js ''N:Doe;Jane;;;'',
        js ''ORG:Acme'', js ''END:VCARD'']"
    by code_simp
  have m: "generateEmailString ?m = Inr (js ''mailto:a@b.com?subject=Hi%20there&body='')"
    by code_simp
  have t: "generateSMSString ?t = Inr (js ''sms:555-1234'')"
    by code_simp
  have w: "generateWiFiString ?w = Inr (js ''WIFI:T:nopass;S:Home;P:;H:true;;'')"
    by code_simp
  from field_sanitization [of ?v "[]" ?m "js ''mailto:a@b.com?subject=Hi%20there&body=''"
      ?t "js ''sms:555-1234''" ?w "js ''WIFI:T:nopass;S:Home;P:;H:true;;''"] v
  have "generateVCardString ?v = Inr (join [LF] (vcard_lines ?v))"
    by blast
  then have "generateVCardString ?v = Inr (join [LF]
       [js ''BEGIN:VCARD'', js ''VERSION:3.0'', js ''FN:Jane Doe'', js ''N:Doe;Jane;;;'',
        js ''ORG:Acme'', js ''END:VCARD''])"
    unfolding l .
  with v m t w show ?thesis by (intro conjI)
qed

text \<open>
  The claim as stated fails: a network name with a leading space and a line feed passes
  validation and is emitted as it is, and a line feed inside a vCard field splits its line.
\<close>

theorem field_sanitization_counterexample:
  "generateWiFiString
     \<lparr>ssid = js '' Net'' @ [LF] @ js ''work'', password = js ''pw'', encryption = WPA, hidden = False\<rparr> =
     Inr (js ''WIFI:T:WPA;S: Net'' @ [LF] @ js ''work;P:pw;;'') \<and>
   isControl LF \<and>
   generateVCardString ((contact ''Jane'' ''Doe'')\<lparr>company := js ''A'' @ [LF] @ js ''B''\<rparr>) =
     Inr (join [LF]
       [js ''BEGIN:VCARD'', js ''VERSION:3.0'', js ''FN:Jane Doe'', js ''N:Doe;Jane;;;'',
        js ''ORG:A'', js ''B'', js ''END:VCARD''])"
  by code_simp

subsection \<open>C2: plain text\<close>

text \<open>
  C2, as amended. For the plain-text kind, validation fails with "Please enter some text"
  exactly when the text is empty or consists of white space only, and then the rasterizer is
  not called; otherwise the text handed to the rasterizer is the text as it was given,
  leading and trailing white space included.
\<close>

theorem text_payload_is_raw:
  "(validateText t = Inl (Error (js ''Please enter some text'')) \<longleftrightarrow> list_all isWhiteSpace t) \<and>
   (list_all isWhiteSpace (text' params) \<longrightarrow>
      generateQRCode URL toDataURL (js ''text'') params =
        \<lparr>outcome = Inl (Error (js ''Please enter some text'')), rasterized = []\<rparr>) \<and>
   (\<not> list_all isWhiteSpace (text' params) \<longrightarrow>
      rasterized (generateQRCode URL toDataURL (js ''text'') params) = [text' params])"
proof -
  have tag: "js ''text'' \<noteq> js ''url''" "js ''text'' \<noteq> js ''vcard''"
    "js ''text'' \<noteq> js ''email''" "js ''text'' \<noteq> js ''sms''"
    by (simp_all add: js_def)
  have data: "qr_data URL (js ''text'') params =
      (if list_all isWhiteSpace (text' params)
       then Inl (Error (js ''Please enter some text'')) else Inr (text' params))"
    by (simp add: qr_data_def tag validateText_def truthy_trim)
  have 1: "validateText t = Inl (Error (js ''Please enter some text'')) \<longleftrightarrow> list_all isWhiteSpace t"
    by (simp add: validateText_def truthy_trim)
  have 2: "list_all isWhiteSpace (text' params) \<longrightarrow>
      generateQRCode URL toDataURL (js ''text'') params =
        \<lparr>outcome = Inl (Error (js ''Please enter some text'')), rasterized = []\<rparr>"
    by (simp add: generateQRCode_def data catch_handler_def)
  have 3: "\<not> list_all isWhiteSpace (text' params) \<longrightarrow>
      rasterized (generateQRCode URL toDataURL (js ''text'') params) = [text' params]"
    by (simp add: generateQRCode_def data split: sum.split)
  from 1 2 3 show ?thesis by (intro conjI)
qed

theorem text_payload_is_raw_witness:
  "list_all isWhiteSpace (text' (sample_params\<lparr>text' := js ''  ''\<rparr>)) \<and>
   generateQRCode (\<lambda>s. None) Inr (js ''text'') (sample_params\<lparr>text' := js ''  ''\<rparr>) =
     \<lparr>outcome = Inl (Error (js ''Please enter some text'')), rasterized = []\<rparr> \<and>
   \<not> list_all isWhiteSpace (text' sample_params) \<and>
   rasterized (generateQRCode (\<lambda>s. None) Inr (js ''text'') sample_params) = [js ''hello'']"
proof -
  have a: "list_all isWhiteSpace (text' (sample_params\<lparr>text' := js ''  ''\<rparr>))"
    by code_simp
  have b: "\<not> list_all isWhiteSpace (text' sample_params)"
    by code_simp
  have c: "text' sample_params = js ''hello''"
    by (simp add: sample_params_def)
  show ?thesis
    using a b c
      text_payload_is_raw [of "[]" "sample_params\<lparr>text' := js ''  ''\<rparr>" "\<lambda>s. None" Inr]
      text_payload_is_raw [of "[]" sample_params "\<lambda>s. None" Inr]
    by simp
qed

text \<open>
  The claim as stated fails: for the text " a " the rasterizer receives " a ", not the
  trimmed "a".
\<close>

theorem text_payload_trimmed_counterexample:
  "rasterized (generateQRCode (\<lambda>s. None) Inr (js ''text'') (sample_params\<lparr>text' := js '' a ''\<rparr>))
     = [js '' a ''] \<and>
   trim (js '' a '') = js ''a'' \<and> js '' a '' \<noteq> js ''a''"
  by code_simp

subsection \<open>C3: malformed phone fields of a contact\<close>

text \<open>
  C3, as amended. For every contact whose first and last names are non-empty after trimming
  and whose email is empty or well-formed: if one of mobile, phone, workPhone, fax is
  non-empty and has a character outside the plus sign, the digits, white space (every
  character of the class \<^verbatim>\<open>\s\<close>, not the space alone), the hyphen and the parentheses, then
  validation fails, and the message names the first such field in the order mobile, phone,
  workPhone, fax. The name is the field name with a space before each capital, then
  lower-cased: a malformed workPhone yields "Please enter a valid work phone".
\<close>

theorem malformed_phone_message:
  assumes "trim (firstName d) \<noteq> []" and "trim (lastName d) \<noteq> []"
    and "VCardData.email d = [] \<or> matches EMAIL_RE (VCardData.email d)"
  shows "validateVCardData d =
     (if mobile d \<noteq> [] \<and> \<not> list_all phoneClass (mobile d)
      then Inl (Error (js ''Please enter a valid mobile''))
      else if VCardData.phone d \<noteq> [] \<and> \<not> list_all phoneClass (VCardData.phone d)
      then Inl (Error (js ''Please enter a valid phone''))
      else if workPhone d \<noteq> [] \<and> \<not> list_all phoneClass (workPhone d)
      then Inl (Error (js ''Please enter a valid work phone''))
      else if fax d \<noteq> [] \<and> \<not> list_all phoneClass (fax d)
      then Inl (Error (js ''Please enter a valid fax''))
      else Inr ())"
  unfolding validateVCardData_chain using assms by auto

theorem malformed_phone_message_witness:
  "trim (js ''Jane'') \<noteq> [] \<and> trim (js ''Doe'') \<noteq> [] \<and>
   \<not> list_all phoneClass (js ''12a'') \<and>
   validateVCardData ((contact ''Jane'' ''Doe'')\<lparr>fax := js ''12a''\<rparr>) =
     Inl (Error (js ''Please enter a valid fax''))"
proof -
  let ?d = "(contact ''Jane'' ''Doe'')\<lparr>fax := js ''12a''\<rparr>"
  have a: "trim (firstName ?d) \<noteq> []" by code_simp
  have b: "trim (lastName ?d) \<noteq> []" by code_simp
  have c: "VCardData.email ?d = [] \<or> matches EMAIL_RE (VCardData.email ?d)"
    by (simp add: contact_def)
  have f: "\<not> list_all phoneClass (js ''12a'')" by code_simp
  have n: "trim (js ''Jane'') \<noteq> []" "trim (js ''Doe'') \<noteq> []"
    by code_simp+
  have g: "js ''12a'' \<noteq> []" by (simp add: js_def)
  show ?thesis
    using n f g malformed_phone_message [OF a b c] by (simp add: contact_def)
qed

text \<open>
  The claim as stated fails: the message for workPhone is lower-cased; a tab, which is
  not a space, is accepted in a phone field; and with a malformed email the message names
  the email, not the phone field.
\<close>

theorem malformed_phone_message_counterexample:
  "validateVCardData ((contact ''Jane'' ''Doe'')\<lparr>workPhone := js ''abc''\<rparr>) =
     Inl (Error (js ''Please enter a valid work phone'')) \<and>
   js ''Please enter a valid work phone'' \<noteq> js ''Please enter a valid work Phone'' \<and>
   validateVCardData ((contact ''Jane'' ''Doe'')\<lparr>mobile := [0x31, 0x09, 0x32]\<rparr>) = Inr () \<and>
   validateVCardData
     ((contact ''Jane'' ''Doe'')\<lparr>workPhone := js ''abc'', VCardData.email := js ''nobody''\<rparr>) =
     Inl (Error (js ''Please enter a valid email address''))"
  by code_simp

subsection \<open>C4: which errors reach the caller unchanged\<close>

text \<open>
  C4, as amended. Whatever is thrown while the text is validated and built is an instance
  of Error (a validation error with its written message, or the URIError of the
  percent-encoding) and reaches the caller unchanged. A failure of the rasterizer that is
  an instance of Error reaches the caller unchanged as well; only a thrown value that is
  not an instance of Error is replaced by "Failed to generate QR code. Please try again."
\<close>

theorem error_propagation:
  "(qr_data URL t p = Inl e \<longrightarrow>
      instanceof_Error e \<and> outcome (generateQRCode URL toDataURL t p) = Inl e) \<and>
   (qr_data URL t p = Inr d \<and> toDataURL d = Inl e \<and> instanceof_Error e \<longrightarrow>
      outcome (generateQRCode URL toDataURL t p) = Inl e) \<and>
   (qr_data URL t p = Inr d \<and> toDataURL d = Inl e \<and> \<not> instanceof_Error e \<longrightarrow>
      outcome (generateQRCode URL toDataURL t p) =
        Inl (Error (js ''Failed to generate QR code. Please try again.'')))"
  by (auto simp: generateQRCode_def catch_handler_def dest: qr_data_throws_Error)

theorem error_propagation_witness:
  "qr_data (\<lambda>s. None) (js ''text'') (sample_params\<lparr>text' := []\<rparr>) =
     Inl (Error (js ''Please enter some text'')) \<and>
   outcome (generateQRCode (\<lambda>s. None) Inr (js ''text'') (sample_params\<lparr>text' := []\<rparr>)) =
     Inl (Error (js ''Please enter some text'')) \<and>
   outcome (generateQRCode (\<lambda>s. None) (\<lambda>d. Inl URIError) (js ''text'') sample_params) =
     Inl URIError \<and>
   outcome (generateQRCode (\<lambda>s. None) (\<lambda>d. Inl NonError) (js ''text'') sample_params) =
     Inl (Error (js ''Failed to generate QR code. Please try again.''))"
proof -
  have a: "qr_data (\<lambda>s. None) (js ''text'') (sample_params\<lparr>text' := []\<rparr>) =
     Inl (Error (js ''Please enter some text''))"
    by code_simp
  have b: "qr_data (\<lambda>s. None) (js ''text'') sample_params = Inr (js ''hello'')"
    by code_simp
  show ?thesis
    using a
      error_propagation [of "\<lambda>s. None" "js ''text''" "sample_params\<lparr>text' := []\<rparr>"
        "Error (js ''Please enter some text'')" Inr]
      error_propagation [of "\<lambda>s. None" "js ''text''" sample_params URIError
        "\<lambda>d. Inl URIError" "js ''hello''", unfolded b]
      error_propagation [of "\<lambda>s. None" "js ''text''" sample_params NonError
        "\<lambda>d. Inl NonError" "js ''hello''", unfolded b]
    by simp
qed

text \<open>
  The claim as stated fails: a rasterizer that fails with an Error (here the message of a
  text too long for a QR code) is not normalized; its error reaches the caller as it is.
\<close>

theorem rasterizer_error_counterexample:
  "outcome (generateQRCode (\<lambda>s. None)
      (\<lambda>d. Inl (Error (js ''The amount of data is too big to be stored in a QR Code'')))
      (js ''text'') sample_params) =
     Inl (Error (js ''The amount of data is too big to be stored in a QR Code'')) \<and>
   js ''The amount of data is too big to be stored in a QR Code'' \<noteq>
     js ''Failed to generate QR code. Please try again.''"
  by code_simp

subsection \<open>C5: URL validation\<close>

text \<open>
  C5, as amended. URL validation trims the input; it fails with "Please enter a URL" exactly
  when the trimmed input is empty; otherwise it returns the serialized URL of the first
  parse if that succeeds, else that of the parse with "https://" put in front, and fails
  with "Please enter a valid website URL" if both parses fail. With a parser that follows
  the URL Standard, "example.com" yields "https://example.com/", and "http://" succeeds
  too: the retry parses "https://http://", whose host is "http" with an empty port, and
  yields "https://http//".
\<close>

theorem validateUrl_behaviour:
  "validateUrl URL u = validateUrl URL (trim u) \<and>
   (validateUrl URL u = Inl (Error (js ''Please enter a URL'')) \<longleftrightarrow> trim u = []) \<and>
   (trim u \<noteq> [] \<longrightarrow>
      validateUrl URL u =
        (case URL (trim u) of
           Some href \<Rightarrow> Inr href
         | None \<Rightarrow>
             (case URL (js ''https://'' @ trim u) of
                Some href \<Rightarrow> Inr href
              | None \<Rightarrow> Inl (Error (js ''Please enter a valid website URL''))))) \<and>
   (implements_URL URL \<longrightarrow>
      validateUrl URL (js ''example.com'') = Inr (js ''https://example.com/'') \<and>
      validateUrl URL (js ''http://'') = Inr (js ''https://http//''))"
proof (intro conjI impI)
  show "validateUrl URL u = validateUrl URL (trim u)"
    by (simp add: validateUrl_def trim_idem)
  have ne: "js ''Please enter a valid website URL'' \<noteq> js ''Please enter a URL''"
    by (simp add: js_def)
  show "validateUrl URL u = Inl (Error (js ''Please enter a URL'')) \<longleftrightarrow> trim u = []"
    using ne by (auto simp: validateUrl_def truthy_def Let_def split: option.splits if_splits)
  show "validateUrl URL u =
        (case URL (trim u) of
           Some href \<Rightarrow> Inr href
         | None \<Rightarrow>
             (case URL (js ''https://'' @ trim u) of
                Some href \<Rightarrow> Inr href
              | None \<Rightarrow> Inl (Error (js ''Please enter a valid website URL''))))"
    if "trim u \<noteq> []"
    using that by (simp add: validateUrl_def truthy_def Let_def)
  have t: "truthy (js ''example.com'')" "truthy (js ''http://'')"
    by (simp_all add: truthy_def js_def)
  show "validateUrl URL (js ''example.com'') = Inr (js ''https://example.com/'')"
    if "implements_URL URL"
    unfolding validateUrl_def Let_def trim_literals js_https_append
      implements_URL_examples [OF that]
    using t by simp
  show "validateUrl URL (js ''http://'') = Inr (js ''https://http//'')"
    if "implements_URL URL"
    unfolding validateUrl_def Let_def trim_literals js_https_append
      implements_URL_examples [OF that]
    using t by simp
qed

theorem validateUrl_behaviour_witness:
  "trim (js '' example.com '') \<noteq> [] \<and> implements_URL fragment_URL \<and>
   validateUrl fragment_URL (js '' example.com '') = Inr (js ''https://example.com/'') \<and>
   validateUrl fragment_URL (js ''http://'') = Inr (js ''https://http//'')"
proof -
  have a: "trim (js '' example.com '') = js ''example.com''" by code_simp
  have b: "js ''example.com'' \<noteq> []" by (simp add: js_def)
  note v = validateUrl_behaviour [of fragment_URL "js '' example.com ''", unfolded a]
  from v have 1: "validateUrl fragment_URL (js '' example.com '') =
      validateUrl fragment_URL (js ''example.com'')"
    by blast
  from v fragment_URL_implements
  have 2: "validateUrl fragment_URL (js ''example.com'') = Inr (js ''https://example.com/'')"
    and 3: "validateUrl fragment_URL (js ''http://'') = Inr (js ''https://http//'')"
    by blast+
  show ?thesis
    unfolding a 1 using b fragment_URL_implements 2 3 by (intro conjI)
qed

text \<open>
  The claim as stated fails: no parser that follows the URL Standard makes "http://" fail,
  since the retry with "https://" in front parses.
\<close>

theorem validateUrl_http_counterexample:
  "\<not> (\<forall>URL. implements_URL URL \<longrightarrow>
        validateUrl URL (js ''http://'') = Inl (Error (js ''Please enter a valid website URL'')))"
proof
  assume "\<forall>URL. implements_URL URL \<longrightarrow>
        validateUrl URL (js ''http://'') = Inl (Error (js ''Please enter a valid website URL''))"
  with fragment_URL_implements
  have "validateUrl fragment_URL (js ''http://'') =
      Inl (Error (js ''Please enter a valid website URL''))"
    by blast
  moreover have "validateUrl fragment_URL (js ''http://'') = Inr (js ''https://http//'')"
    by code_simp
  ultimately show False by simp
qed

subsection \<open>C6: the lines of the vCard\<close>

text \<open>
  C6, as amended. For every valid contact the vCard is, joined by line feeds: BEGIN:VCARD,
  VERSION:3.0, the FN segment, the N segment, then the optional segments EMAIL, TEL (CELL,
  HOME, WORK, FAX), ORG, TITLE, ADR, URL in this order, then END:VCARD. An optional segment
  is there exactly when its field is not white space only, and it carries the field without
  its leading and trailing white space; ADR is there only when an address component is not
  white space only. When no field holds a line feed after trimming, these segments are
  exactly the lines of the output; then a contact whose optional fields are all empty or
  white space gives the four mandatory lines and END:VCARD and nothing else. The contact
  Jane Doe with mobile "+1 555-123-4567" gives the lines FN:Jane Doe, N:Doe;Jane;;; and
  TEL;TYPE=CELL:+1 555-123-4567 between the header and END:VCARD.
\<close>

theorem vcard_lines_when_no_line_feed:
  "vcard_lines d =
     [js ''BEGIN:VCARD'', js ''VERSION:3.0'',
      js ''FN:'' @ trim (firstName d) @ js '' '' @ trim (lastName d),
      js ''N:'' @ trim (lastName d) @ js '';'' @ trim (firstName d) @ js '';;;''] @
     optional_line ''EMAIL:'' (VCardData.email d) @
     optional_line ''TEL;TYPE=CELL:'' (mobile d) @
     optional_line ''TEL;TYPE=HOME:'' (VCardData.phone d) @
     optional_line ''TEL;TYPE=WORK:'' (workPhone d) @
     optional_line ''TEL;TYPE=FAX:'' (fax d) @
     optional_line ''ORG:'' (company d) @
     optional_line ''TITLE:'' (jobTitle d) @
     address_line d @
     optional_line ''URL:'' (website d) @
     [js ''END:VCARD''] \<and>
   optional_line tag f = (if list_all isWhiteSpace f then [] else [js tag @ trim f]) \<and>
   (\<exists>a b. f = a @ trim f @ b \<and> list_all isWhiteSpace a \<and> list_all isWhiteSpace b) \<and>
   (trim f = [] \<or> \<not> isWhiteSpace (hd (trim f)) \<and> \<not> isWhiteSpace (last (trim f))) \<and>
   (address_line d \<noteq> [] \<longrightarrow>
      \<not> list_all isWhiteSpace (street d) \<or> \<not> list_all isWhiteSpace (city d) \<or>
      \<not> list_all isWhiteSpace (state d) \<or> \<not> list_all isWhiteSpace (zip' d) \<or>
      \<not> list_all isWhiteSpace (country d)) \<and>
   (validateVCardData d = Inr () \<longrightarrow>
      generateVCardString d = Inr (join [LF] (vcard_lines d))) \<and>
   (validateVCardData d = Inr () \<and> list_all (\<lambda>x. LF \<notin> set (trim x)) (all_fields d) \<longrightarrow>
      (\<exists>out. generateVCardString d = Inr out \<and> lines_of out = vcard_lines d)) \<and>
   (validateVCardData d = Inr () \<and>
    LF \<notin> set (trim (firstName d)) \<and> LF \<notin> set (trim (lastName d)) \<and>
    list_all isWhiteSpace (VCardData.email d) \<and> list_all isWhiteSpace (mobile d) \<and>
    list_all isWhiteSpace (VCardData.phone d) \<and> list_all isWhiteSpace (workPhone d) \<and>
    list_all isWhiteSpace (fax d) \<and> list_all isWhiteSpace (company d) \<and>
    list_all isWhiteSpace (jobTitle d) \<and> list_all isWhiteSpace (street d) \<and>
    list_all isWhiteSpace (city d) \<and> list_all isWhiteSpace (state d) \<and>
    list_all isWhiteSpace (zip' d) \<and> list_all isWhiteSpace (country d) \<and>
    list_all isWhiteSpace (website d) \<longrightarrow>
      (\<exists>out. generateVCardString d = Inr out \<and>
         lines_of out =
           [js ''BEGIN:VCARD'', js ''VERSION:3.0'',
            js ''FN:'' @ trim (firstName d) @ js '' '' @ trim (lastName d),
            js ''N:'' @ trim (lastName d) @ js '';'' @ trim (firstName d) @ js '';;;'',
            js ''END:VCARD''])) \<and>
   (\<exists>out. generateVCardString ((contact ''Jane'' ''Doe'')\<lparr>mobile := js ''+1 555-123-4567''\<rparr>) =
            Inr out \<and>
      lines_of out =
        [js ''BEGIN:VCARD'', js ''VERSION:3.0'', js ''FN:Jane Doe'', js ''N:Doe;Jane;;;'',
         js ''TEL;TYPE=CELL:+1 555-123-4567'', js ''END:VCARD''])"
proof (intro conjI impI)
  show "vcard_lines d =
     [js ''BEGIN:VCARD'', js ''VERSION:3.0'',
      js ''FN:'' @ trim (firstName d) @ js '' '' @ trim (lastName d),
      js ''N:'' @ trim (lastName d) @ js '';'' @ trim (firstName d) @ js '';;;''] @
     optional_line ''EMAIL:'' (VCardData.email d) @
     optional_line ''TEL;TYPE=CELL:'' (mobile d) @
     optional_line ''TEL;TYPE=HOME:'' (VCardData.phone d) @
     optional_line ''TEL;TYPE=WORK:'' (workPhone d) @
     optional_line ''TEL;TYPE=FAX:'' (fax d) @
     optional_line ''ORG:'' (company d) @
     optional_line ''TITLE:'' (jobTitle d) @
     address_line d @
     optional_line ''URL:'' (website d) @
     [js ''END:VCARD'']"
    by (rule vcard_lines_def)
  show "optional_line tag f = (if list_all isWhiteSpace f then [] else [js tag @ trim f])"
    by (rule optional_line_iff)
  show "\<exists>a b. f = a @ trim f @ b \<and> list_all isWhiteSpace a \<and> list_all isWhiteSpace b"
    by (rule trim_decomposition)
  show "trim f = [] \<or> \<not> isWhiteSpace (hd (trim f)) \<and> \<not> isWhiteSpace (last (trim f))"
    by (rule trim_ends)
  show "\<not> list_all isWhiteSpace (street d) \<or> \<not> list_all isWhiteSpace (city d) \<or>
      \<not> list_all isWhiteSpace (state d) \<or> \<not> list_all isWhiteSpace (zip' d) \<or>
      \<not> list_all isWhiteSpace (country d)"
    if "address_line d \<noteq> []"
    using that by (rule address_line_only_when_ws)
  show "generateVCardString d = Inr (join [LF] (vcard_lines d))"
    if "validateVCardData d = Inr ()"
    using that by (rule generateVCardString_lines)
  show "\<exists>out. generateVCardString d = Inr out \<and> lines_of out = vcard_lines d"
    if "validateVCardData d = Inr () \<and> list_all (\<lambda>x. LF \<notin> set (trim x)) (all_fields d)"
    using that generateVCardString_lines_of by blast
  show "\<exists>out. generateVCardString d = Inr out \<and>
         lines_of out =
           [js ''BEGIN:VCARD'', js ''VERSION:3.0'',
            js ''FN:'' @ trim (firstName d) @ js '' '' @ trim (lastName d),
            js ''N:'' @ trim (lastName d) @ js '';'' @ trim (firstName d) @ js '';;;'',
            js ''END:VCARD'']"
    if h: "validateVCardData d = Inr () \<and>
    LF \<notin> set (trim (firstName d)) \<and> LF \<notin> set (trim (lastName d)) \<and>
    list_all isWhiteSpace (VCardData.email d) \<and> list_all isWhiteSpace (mobile d) \<and>
    list_all isWhiteSpace (VCardData.phone d) \<and> list_all isWhiteSpace (workPhone d) \<and>
    list_all isWhiteSpace (fax d) \<and> list_all isWhiteSpace (company d) \<and>
    list_all isWhiteSpace (jobTitle d) \<and> list_all isWhiteSpace (street d) \<and>
    list_all isWhiteSpace (city d) \<and> list_all isWhiteSpace (state d) \<and>
    list_all isWhiteSpace (zip' d) \<and> list_all isWhiteSpace (country d) \<and>
    list_all isWhiteSpace (website d)"
  proof -
    from h have v: "validateVCardData d = Inr ()" by blast
    from h have t: "trim (VCardData.email d) = []" "trim (mobile d) = []"
      "trim (VCardData.phone d) = []" "trim (workPhone d) = []" "trim (fax d) = []"
      "trim (company d) = []" "trim (jobTitle d) = []" "trim (street d) = []"
      "trim (city d) = []" "trim (state d) = []" "trim (zip' d) = []"
      "trim (country d) = []" "trim (website d) = []"
      by (simp_all add: trim_Nil_iff)
    from h t have n: "list_all (\<lambda>x. LF \<notin> set (trim x)) (all_fields d)"
      by (simp add: all_fields_def)
    have l: "vcard_lines d =
          [js ''BEGIN:VCARD'', js ''VERSION:3.0'',
           js ''FN:'' @ trim (firstName d) @ js '' '' @ trim (lastName d),
           js ''N:'' @ trim (lastName d) @ js '';'' @ trim (firstName d) @ js '';;;'',
           js ''END:VCARD'']"
      using t by (simp add: vcard_lines_def optional_line_def address_line_def js_def)
    from generateVCardString_lines_of [OF v n] show ?thesis unfolding l .
  qed
  show "\<exists>out. generateVCardString ((contact ''Jane'' ''Doe'')\<lparr>mobile := js ''+1 555-123-4567''\<rparr>) =
            Inr out \<and>
      lines_of out =
        [js ''BEGIN:VCARD'', js ''VERSION:3.0'', js ''FN:Jane Doe'', js ''N:Doe;Jane;;;'',
         js ''TEL;TYPE=CELL:+1 555-123-4567'', js ''END:VCARD'']"
  proof -
    let ?d = "(contact ''Jane'' ''Doe'')\<lparr>mobile := js ''+1 555-123-4567''\<rparr>"
    let ?out = "join [LF]
       [js ''BEGIN:VCARD'', js ''VERSION:3.0'', js ''FN:Jane Doe'', js ''N:Doe;Jane;;;'',
        js ''TEL;TYPE=CELL:+1 555-123-4567'', js ''END:VCARD'']"
    have "generateVCardString ?d = Inr ?out" by code_simp
    moreover have "lines_of ?out =
        [js ''BEGIN:VCARD'', js ''VERSION:3.0'', js ''FN:Jane Doe'', js ''N:Doe;Jane;;;'',
         js ''TEL;TYPE=CELL:+1 555-123-4567'', js ''END:VCARD'']"
      by code_simp
    ultimately show ?thesis by blast
  qed
qed

theorem vcard_lines_when_no_line_feed_witness:
  "validateVCardData ((contact ''Jane'' ''Doe'')\<lparr>company := js ''  '', jobTitle := js '' CEO ''\<rparr>) =
     Inr () \<and>
   (\<exists>out. generateVCardString
            ((contact ''Jane'' ''Doe'')\<lparr>company := js ''  '', jobTitle := js '' CEO ''\<rparr>) = Inr out \<and>
      lines_of out =
        [js ''BEGIN:VCARD'', js ''VERSION:3.0'', js ''FN:Jane Doe'', js ''N:Doe;Jane;;;'',
         js ''TITLE:CEO'', js ''END:VCARD'']) \<and>
   validateVCardData ((contact '' Jane'' ''Doe '')\<lparr>company := js ''  ''\<rparr>) = Inr () \<and>
   (\<exists>out. generateVCardString ((contact '' Jane'' ''Doe '')\<lparr>company := js ''  ''\<rparr>) = Inr out \<and>
      lines_of out =
        [js ''BEGIN:VCARD'', js ''VERSION:3.0'', js ''FN:Jane Doe'', js ''N:Doe;Jane;;;'',
         js ''END:VCARD'']) \<and>
   address_line ((contact ''Jane'' ''Doe'')\<lparr>city := js ''Oslo''\<rparr>) \<noteq> [] \<and>
   \<not> list_all isWhiteSpace (city ((contact ''Jane'' ''Doe'')\<lparr>city := js ''Oslo''\<rparr>))"
proof -
  let ?d = "(contact ''Jane'' ''Doe'')\<lparr>company := js ''  '', jobTitle := js '' CEO ''\<rparr>"
  let ?c = "(contact '' Jane'' ''Doe '')\<lparr>company := js ''  ''\<rparr>"
  let ?e = "(contact ''Jane'' ''Doe'')\<lparr>city := js ''Oslo''\<rparr>"
  have v: "validateVCardData ?d = Inr ()" by code_simp
  have n: "list_all (\<lambda>x. LF \<notin> set (trim x)) (all_fields ?d)" by code_simp
  have l: "vcard_lines ?d =
        [js ''BEGIN:VCARD'', js ''VERSION:3.0'', js ''FN:Jane Doe'', js ''N:Doe;Jane;;;'',
         js ''TITLE:CEO'', js ''END:VCARD'']"
    by code_simp
  from vcard_lines_when_no_line_feed [of ?d] v n
  have 1: "\<exists>out. generateVCardString ?d = Inr out \<and> lines_of out = vcard_lines ?d"
    by blast
  have w: "validateVCardData ?c = Inr ()" by code_simp
  have h: "LF \<notin> set (trim (firstName ?c)) \<and> LF \<notin> set (trim (lastName ?c)) \<and>
    list_all isWhiteSpace (VCardData.email ?c) \<and> list_all isWhiteSpace (mobile ?c) \<and>
    list_all isWhiteSpace (VCardData.phone ?c) \<and> list_all isWhiteSpace (workPhone ?c) \<and>
    list_all isWhiteSpace (fax ?c) \<and> list_all isWhiteSpace (company ?c) \<and>
    list_all isWhiteSpace (jobTitle ?c) \<and> list_all isWhiteSpace (street ?c) \<and>
    list_all isWhiteSpace (city ?c) \<and> list_all isWhiteSpace (state ?c) \<and>
    list_all isWhiteSpace (zip' ?c) \<and> list_all isWhiteSpace (country ?c) \<and>
    list_all isWhiteSpace (website ?c)"
    by code_simp
  have t: "trim (firstName ?c) = js ''Jane''" "trim (lastName ?c) = js ''Doe''"
    by code_simp+
  have j: "js ''FN:'' @ js ''Jane'' @ js '' '' @ js ''Doe'' = js ''FN:Jane Doe''"
    "js ''N:'' @ js ''Doe'' @ js '';'' @ js ''Jane'' @ js '';;;'' = js ''N:Doe;Jane;;;''"
    by (simp_all add: js_def)
  from vcard_lines_when_no_line_feed [of ?c] w h
  have 2: "\<exists>out. generateVCardString ?c = Inr out \<and>
         lines_of out =
           [js ''BEGIN:VCARD'', js ''VERSION:3.0'',
            js ''FN:'' @ trim (firstName ?c) @ js '' '' @ trim (lastName ?c),
            js ''N:'' @ trim (lastName ?c) @ js '';'' @ trim (firstName ?c) @ js '';;;'',
            js ''END:VCARD'']"
    by blast
  have a: "address_line ?e \<noteq> []" by code_simp
  have o: "list_all isWhiteSpace (street ?e)" "list_all isWhiteSpace (state ?e)"
    "list_all isWhiteSpace (zip' ?e)" "list_all isWhiteSpace (country ?e)"
    by code_simp+
  from vcard_lines_when_no_line_feed [of ?e] a
  have "\<not> list_all isWhiteSpace (street ?e) \<or> \<not> list_all isWhiteSpace (city ?e) \<or>
      \<not> list_all isWhiteSpace (state ?e) \<or> \<not> list_all isWhiteSpace (zip' ?e) \<or>
      \<not> list_all isWhiteSpace (country ?e)"
    by blast
  with o have 3: "\<not> list_all isWhiteSpace (city ?e)" by blast
  from 1 have p1: "\<exists>out. generateVCardString ?d = Inr out \<and>
      lines_of out =
        [js ''BEGIN:VCARD'', js ''VERSION:3.0'', js ''FN:Jane Doe'', js ''N:Doe;Jane;;;'',
         js ''TITLE:CEO'', js ''END:VCARD'']"
    unfolding l .
  from 2 have p2: "\<exists>out. generateVCardString ?c = Inr out \<and>
      lines_of out =
        [js ''BEGIN:VCARD'', js ''VERSION:3.0'', js ''FN:Jane Doe'', js ''N:Doe;Jane;;;'',
         js ''END:VCARD'']"
    unfolding t j .
  from v p1 w p2 a 3 show ?thesis by (intro conjI)
qed

text \<open>
  The claim as stated fails: a last name with a line feed inside is valid, and with every
  optional field empty the output has seven lines, one of them "ORG:Evil", although the
  company is empty.
\<close>

theorem vcard_lines_counterexample:
  "validateVCardData ((contact ''Jane'' ''Doe'')\<lparr>lastName := js ''Doe'' @ [LF] @ js ''ORG:Evil''\<rparr>) =
     Inr () \<and>
   generateVCardString ((contact ''Jane'' ''Doe'')\<lparr>lastName := js ''Doe'' @ [LF] @ js ''ORG:Evil''\<rparr>) =
     Inr (join [LF]
       [js ''BEGIN:VCARD'', js ''VERSION:3.0'', js ''FN:Jane Doe'', js ''ORG:Evil'',
        js ''N:Doe'', js ''ORG:Evil;Jane;;;'', js ''END:VCARD'']) \<and>
   lines_of (join [LF]
       [js ''BEGIN:VCARD'', js ''VERSION:3.0'', js ''FN:Jane Doe'', js ''ORG:Evil'',
        js ''N:Doe'', js ''ORG:Evil;Jane;;;'', js ''END:VCARD'']) =
     [js ''BEGIN:VCARD'', js ''VERSION:3.0'', js ''FN:Jane Doe'', js ''ORG:Evil'',
      js ''N:Doe'', js ''ORG:Evil;Jane;;;'', js ''END:VCARD''] \<and>
   company ((contact ''Jane'' ''Doe'')\<lparr>lastName := js ''Doe'' @ [LF] @ js ''ORG:Evil''\<rparr>) = []"
  by code_simp

subsection \<open>C7: the WiFi string\<close>

text \<open>
  C7, as amended. For every WiFi record whose ssid is non-empty after trimming (and whose
  password is non-empty after trimming unless the encryption is nopass), the encoder
  returns WIFI:T:, the encryption, ;S:, the ssid, ;P:, the password as it is, then ;H:true
  only when hidden, then ;; . In particular ssid "Home" with nopass and not hidden gives
  "WIFI:T:nopass;S:Home;P:;;" and does not fail on the empty password.
\<close>

theorem wifi_encoding:
  assumes "trim (ssid d) \<noteq> []"
    and "encryption d = nopass \<or> trim (password d) \<noteq> []"
  shows "generateWiFiString d =
           Inr (js ''WIFI:T:'' @ encryption_string (encryption d) @ js '';S:'' @ ssid d @
                js '';P:'' @ password d @ (if hidden d then js '';H:true'' else []) @ js '';;'')"
  using assms by (auto simp: generateWiFiString_def validateWiFiData_chain)

theorem wifi_encoding_witness:
  "trim (js ''Home'') \<noteq> [] \<and>
   generateWiFiString \<lparr>ssid = js ''Home'', password = [], encryption = nopass, hidden = False\<rparr> =
     Inr (js ''WIFI:T:nopass;S:Home;P:;;'')"
proof -
  let ?d = "\<lparr>ssid = js ''Home'', password = [], encryption = nopass, hidden = False\<rparr>"
  have a: "trim (ssid ?d) \<noteq> []" by code_simp
  have b: "encryption ?d = nopass \<or> trim (password ?d) \<noteq> []" by simp
  have c: "trim (js ''Home'') \<noteq> []" by code_simp
  show ?thesis
    using c wifi_encoding [OF a b] by (simp add: js_def)
qed

text \<open>
  The claim as stated fails: the ssid " " is not empty, yet the encoder fails, because the
  check is made on the trimmed ssid.
\<close>

theorem wifi_nonempty_ssid_counterexample:
  "js '' '' \<noteq> [] \<and> js ''secret'' \<noteq> [] \<and>
   generateWiFiString \<lparr>ssid = js '' '', password = js ''secret'', encryption = WPA, hidden = False\<rparr> =
     Inl (Error (js ''Please enter a network name (SSID)''))"
  by code_simp

subsection \<open>C8: the order of the checks\<close>

text \<open>
  C8, as amended. Every validator makes its checks in a fixed order and stops at the first
  that fails, the presence check of a field before its format check. For a contact the
  order is: first and last name, then email, then mobile, phone, workPhone, fax; the email
  is checked before the phone fields, not after them. For an email message, an SMS and a
  WiFi record: presence, then format (for WiFi: ssid, then password).
\<close>

theorem validation_order:
  "validateVCardData v =
     (if trim (firstName v) = [] \<or> trim (lastName v) = []
      then Inl (Error (js ''Please enter both first and last name''))
      else if VCardData.email v \<noteq> [] \<and> \<not> matches EMAIL_RE (VCardData.email v)
      then Inl (Error (js ''Please enter a valid email address''))
      else if mobile v \<noteq> [] \<and> \<not> list_all phoneClass (mobile v)
      then Inl (Error (js ''Please enter a valid mobile''))
      else if VCardData.phone v \<noteq> [] \<and> \<not> list_all phoneClass (VCardData.phone v)
      then Inl (Error (js ''Please enter a valid phone''))
      else if workPhone v \<noteq> [] \<and> \<not> list_all phoneClass (workPhone v)
      then Inl (Error (js ''Please enter a valid work phone''))
      else if fax v \<noteq> [] \<and> \<not> list_all phoneClass (fax v)
      then Inl (Error (js ''Please enter a valid fax''))
      else Inr ()) \<and>
   validateEmailData e =
     (if trim (EmailData.email e) = []
      then Inl (Error (js ''Please enter an email address''))
      else if \<not> matches EMAIL_RE (EmailData.email e)
      then Inl (Error (js ''Please enter a valid email address''))
      else Inr ()) \<and>
   validateSMSData s =
     (if trim (SMSData.phone s) = []
      then Inl (Error (js ''Please enter a phone number''))
      else if \<not> list_all phoneClass (SMSData.phone s)
      then Inl (Error (js ''Please enter a valid phone number''))
      else Inr ()) \<and>
   validateWiFiData w =
     (if trim (ssid w) = []
      then Inl (Error (js ''Please enter a network name (SSID)''))
      else if encryption w \<noteq> nopass \<and> trim (password w) = []
      then Inl (Error (js ''Please enter a network password''))
      else Inr ())"
  by (intro conjI)
    (rule validateVCardData_chain, rule validateEmailData_chain, rule validateSMSData_chain,
     rule validateWiFiData_chain)

theorem validation_order_witness:
  "validateVCardData
     ((contact ''Jane'' ''Doe'')\<lparr>mobile := js ''abc'', fax := js ''x'', VCardData.email := js ''a@b.com''\<rparr>) =
     Inl (Error (js ''Please enter a valid mobile'')) \<and>
   validateSMSData \<lparr>SMSData.phone = js ''  '', message = []\<rparr> =
     Inl (Error (js ''Please enter a phone number''))"
proof -
  let ?v = "(contact ''Jane'' ''Doe'')\<lparr>mobile := js ''abc'', fax := js ''x'', VCardData.email := js ''a@b.com''\<rparr>"
  let ?e = "\<lparr>EmailData.email = js ''a@b.com'', subject = [], body = []\<rparr>"
  let ?s = "\<lparr>SMSData.phone = js ''  '', message = []\<rparr>"
  let ?w = "\<lparr>ssid = js ''Home'', password = [], encryption = nopass, hidden = False\<rparr>"
  have 1: "\<not> (trim (firstName ?v) = [] \<or> trim (lastName ?v) = [])"
    by code_simp
  have 2: "\<not> (VCardData.email ?v \<noteq> [] \<and> \<not> matches EMAIL_RE (VCardData.email ?v))"
    by code_simp
  have 3: "mobile ?v \<noteq> [] \<and> \<not> list_all phoneClass (mobile ?v)"
    by code_simp
  have 4: "trim (SMSData.phone ?s) = []"
    by code_simp
  from validation_order [of ?v ?e ?s ?w]
  have "validateVCardData ?v = Inl (Error (js ''Please enter a valid mobile''))"
    and "validateSMSData ?s = Inl (Error (js ''Please enter a phone number''))"
    unfolding if_not_P [OF 1] if_not_P [OF 2] if_P [OF 3] if_P [OF 4] by blast+
  then show ?thesis by (rule conjI)
qed

text \<open>
  The claim as stated fails: with a malformed mobile and a malformed email the error is the
  email's, although mobile comes before email in the declared order.
\<close>

theorem validation_order_counterexample:
  "validateVCardData
     ((contact ''Jane'' ''Doe'')\<lparr>mobile := js ''abc'', VCardData.email := js ''nobody''\<rparr>) =
     Inl (Error (js ''Please enter a valid email address''))"
  by code_simp

subsection \<open>C9: unknown kinds\<close>

text \<open>
  C9. For every kind tag outside url, vcard, email, sms, text and wifi, \<open>generateQRCode\<close>
  fails with the message "Invalid QR code type", and the rasterizer is not called: the list
  of texts handed to it is empty, whatever the rasterizer and the URL parser are.
\<close>

theorem unknown_kind_fails:
  assumes "type' \<notin> {js ''url'', js ''vcard'', js ''email'', js ''sms'', js ''text'', js ''wifi''}"
  shows "generateQRCode URL toDataURL type' params =
           \<lparr>outcome = Inl (Error (js ''Invalid QR code type'')), rasterized = []\<rparr>"
  using assms by (simp add: generateQRCode_def qr_data_def catch_handler_def)

theorem unknown_kind_fails_witness:
  "js ''pdf'' \<notin> {js ''url'', js ''vcard'', js ''email'', js ''sms'', js ''text'', js ''wifi''} \<and>
   generateQRCode (\<lambda>s. None) (\<lambda>d. Inr d) (js ''pdf'') sample_params =
     \<lparr>outcome = Inl (Error (js ''Invalid QR code type'')), rasterized = []\<rparr>"
proof -
  have h: "js ''pdf'' \<notin> {js ''url'', js ''vcard'', js ''email'', js ''sms'', js ''text'', js ''wifi''}"
    by (simp add: js_def)
  show ?thesis
    using h unknown_kind_fails [OF h] by simp
qed

subsection \<open>C10: the phone number and the colons of the sms string\<close>

text \<open>
  C10, as amended. For every SMSData the validator accepts, the phone is non-empty and each
  of its characters is the plus sign, a digit, white space (every character of the class
  \<^verbatim>\<open>\s\<close>: tabs and line breaks too, not the space alone), a hyphen or a parenthesis. The
  emitted string is "sms:" and the phone, followed by a colon and the percent-encoded
  message exactly when the message is non-empty; it holds one colon when the message is
  empty and two otherwise. When the message has a surrogate without its partner, no string
  is emitted and the URIError is thrown.
\<close>

theorem sms_phone_and_colons:
  assumes "validateSMSData d = Inr ()"
  shows "SMSData.phone d \<noteq> [] \<and> list_all phoneClass (SMSData.phone d) \<and>
         (case encodeURIComponent (message d) of
            None \<Rightarrow> generateSMSString d = Inl URIError
          | Some m \<Rightarrow>
              generateSMSString d =
                Inr (js ''sms:'' @ SMSData.phone d @ (if message d = [] then [] else js '':'' @ m)) \<and>
              count_list (js ''sms:'' @ SMSData.phone d @ (if message d = [] then [] else js '':'' @ m))
                0x3A = (if message d = [] then 1 else 2))"
proof -
  from assms have p: "SMSData.phone d \<noteq> []" "list_all phoneClass (SMSData.phone d)"
    by (auto simp: validateSMSData_def matches_PHONE_RE split: if_splits)
  have c: "count_list (js ''sms:'') 0x3A = 1" "count_list (js '':'') 0x3A = 1"
    by (simp_all add: js_def)
  show ?thesis
  proof (cases "encodeURIComponent (message d)")
    case None
    then show ?thesis using p assms
      by (simp add: generateSMSString_def or_else_Nil)
  next
    case (Some m)
    then have e: "m = [] \<longleftrightarrow> message d = []"
      by (rule encodeURIComponent_Nil_iff)
    from Some have z: "count_list m 0x3A = 0"
      by (rule count_colon_encoded)
    show ?thesis using p assms Some e z c count_colon_phone [OF p(2)]
      by (simp add: generateSMSString_def or_else_Nil truthy_def count_list_app)
  qed
qed

theorem sms_phone_and_colons_witness:
  "validateSMSData \<lparr>SMSData.phone = js ''555-1234'', message = js ''a:b''\<rparr> = Inr () \<and>
   generateSMSString \<lparr>SMSData.phone = js ''555-1234'', message = js ''a:b''\<rparr> =
     Inr (js ''sms:555-1234:a%3Ab'')"
proof -
  let ?d = "\<lparr>SMSData.phone = js ''555-1234'', message = js ''a:b''\<rparr>"
  have v: "validateSMSData ?d = Inr ()" by code_simp
  have m: "encodeURIComponent (message ?d) = Some (js ''a%3Ab'')" by code_simp
  have n: "message ?d \<noteq> []" by (simp add: js_def)
  show ?thesis
    using v sms_phone_and_colons [OF v] unfolding m option.case if_not_P [OF n]
    by (simp add: js_def)
qed

text \<open>
  The claim as stated fails: the phone "1", tab, "2" is accepted and emitted, and the tab is
  none of the plus sign, the space, the hyphen, the parentheses and the digits.
\<close>

theorem sms_phone_spaces_counterexample:
  "validateSMSData \<lparr>SMSData.phone = [0x31, 0x09, 0x32], message = []\<rparr> = Inr () \<and>
   generateSMSString \<lparr>SMSData.phone = [0x31, 0x09, 0x32], message = []\<rparr> =
     Inr (js ''sms:'' @ [0x31, 0x09, 0x32]) \<and>
   (0x09 :: code_unit) \<notin> {0x2B, 0x20, 0x2D, 0x28, 0x29} \<union> {c. 0x30 \<le> c \<and> c \<le> 0x39}"
proof -
  have "validateSMSData \<lparr>SMSData.phone = [0x31, 0x09, 0x32], message = []\<rparr> = Inr ()"
    by code_simp
  moreover have "generateSMSString \<lparr>SMSData.phone = [0x31, 0x09, 0x32], message = []\<rparr> =
     Inr (js ''sms:'' @ [0x31, 0x09, 0x32])"
    by code_simp
  moreover have "(0x09 :: code_unit) \<notin> {0x2B, 0x20, 0x2D, 0x28, 0x29} \<union> {c. 0x30 \<le> c \<and> c \<le> 0x39}"
    by simp
  ultimately show ?thesis by (intro conjI)
qed

end
